theory Spec2Isabelle
  imports Main "HOL-Library.Word" "HOL-Library.Signed_Division"
begin

section \<open>Time: durations, instants, Unix seconds\<close>

text \<open>
  Go's \<open>time.Duration\<close> is an \<open>int64\<close> count of nanoseconds: negation and the other
  arithmetic wrap around, comparison and division are signed, and division truncates
  towards zero. An instant (\<open>time.Time\<close>) carries 64-bit seconds and a nanosecond part, so
  adding any \<open>Duration\<close> to a wall-clock reading never wraps; it is modelled as the
  unbounded number of nanoseconds since the Unix epoch. \<open>Unix()\<close> is the number of whole
  seconds since the epoch, rounded down.
\<close>

type_synonym Duration = "64 word"

type_synonym Time = int

definition Second :: Duration where
  "Second = 1000000000"

definition Minute :: Duration where
  "Minute = 60 * Second"

definition Add :: "Time \<Rightarrow> Duration \<Rightarrow> Time" where
  "Add t d = t + sint d"

definition Unix :: "Time \<Rightarrow> int" where
  "Unix t = t div 1000000000"

text \<open>The least \<open>Duration\<close>, \<open>math.MinInt64\<close> nanoseconds: the one value negation maps to itself.\<close>

definition minDuration :: Duration where
  "minDuration = - 9223372036854775808"

section \<open>The domain entity and the stored document\<close>

text \<open>
  Modelled from the spec: package \<open>auction_entity\<close> (types \<open>ProductCondition\<close>,
  \<open>AuctionStatus\<close> and \<open>Auction\<close>) is not among the sources. The spec gives the status as
  an enumeration with the two values Active (0) and Completed (1); the tests name the
  three product conditions; \<open>CreateAuction\<close> reads the seven fields of \<open>Auction\<close>, whose
  \<open>Timestamp\<close> is an instant.
\<close>

datatype ProductCondition = New | Used | Refurbished

datatype AuctionStatus = Active | Completed

record Auction =
  auction_Id :: string
  auction_ProductName :: string
  auction_Category :: string
  auction_Description :: string
  auction_Condition :: ProductCondition
  auction_Status :: AuctionStatus
  auction_Timestamp :: Time

text \<open>\<open>AuctionEntityMongo\<close>, the document as stored; \<open>Timestamp\<close> is an \<open>int64\<close> of Unix seconds.\<close>

record AuctionEntityMongo =
  Id' :: string
  ProductName :: string
  Category :: string
  Description :: string
  Condition :: ProductCondition
  Status :: AuctionStatus
  Timestamp :: "64 word"

section \<open>The store, the logger and the world the repository acts on\<close>

datatype error = DriverError string | DuplicateKey | InvalidDuration string

text \<open>
  Modelled from the spec: package \<open>internal_error\<close> is not among the sources;
  \<open>NewInternalServerError\<close> builds the reportable internal error from a message.
\<close>

datatype InternalError = NewInternalServerError string

text \<open>
  Modelled from the spec: package \<open>logger\<close> is not among the sources. A call of
  \<open>logger.Info\<close> or \<open>logger.Error\<close> is recorded with the arguments it was given: the
  message, and the integer fields (\<open>zap.Int64\<close>) or the error. Where the source formats
  the message with \<open>fmt.Sprintf\<close>, the format string is recorded with its argument
  as a field named by the verb.
\<close>

datatype zap_field = Int64 string int

datatype log_entry = Info string "zap_field list" | Error string error

text \<open>
  The filters and updates the repository sends are BSON documents of one shape:
  \<open>{"status": s, "timestamp": {"$lte": t}}\<close> (or \<open>"$lt"\<close>) and \<open>{"$set": {"status": s}}\<close>.
\<close>

datatype bson_cmp = Lte int | Lt int

record bson_filter =
  filter_status :: AuctionStatus
  filter_timestamp :: bson_cmp

datatype bson_update = Set_status AuctionStatus

record UpdateResult =
  ModifiedCount :: int

fun cmp_holds :: "bson_cmp \<Rightarrow> int \<Rightarrow> bool" where
  "cmp_holds (Lte t) v = (v \<le> t)"
| "cmp_holds (Lt t) v = (v < t)"

definition matches :: "bson_filter \<Rightarrow> AuctionEntityMongo \<Rightarrow> bool" where
  "matches f d = (Status d = filter_status f \<and> cmp_holds (filter_timestamp f) (sint (Timestamp d)))"

fun apply_update :: "bson_update \<Rightarrow> AuctionEntityMongo \<Rightarrow> AuctionEntityMongo" where
  "apply_update (Set_status s) d = d\<lparr>Status := s\<rparr>"

text \<open>
  The store is the external collaborator (the MongoDB driver); the spec gives its two
  operations as \<open>insertOne(entity) -> error|nil\<close> and
  \<open>updateMany(filter, set) -> (modifiedCount, error|nil)\<close>. A collection is the list of its
  documents. Whether a call fails is the store's choice, given to the model as
  \<open>fault\<close>; a failing call leaves the collection as it was. \<open>updateMany\<close> rewrites every
  matching document and counts those it really changed; \<open>insertOne\<close> refuses a second
  document with the same \<open>_id\<close>.
\<close>

definition store_updateMany ::
  "error option \<Rightarrow> bson_filter \<Rightarrow> bson_update \<Rightarrow> AuctionEntityMongo list
    \<Rightarrow> (error + UpdateResult) \<times> AuctionEntityMongo list" where
  "store_updateMany fault f u c =
     (case fault of
        Some err \<Rightarrow> (Inl err, c)
      | None \<Rightarrow>
          (Inr \<lparr>ModifiedCount = int (length (filter (\<lambda>d. matches f d \<and> apply_update u d \<noteq> d) c))\<rparr>,
           map (\<lambda>d. if matches f d then apply_update u d else d) c))"

definition store_insertOne ::
  "error option \<Rightarrow> AuctionEntityMongo \<Rightarrow> AuctionEntityMongo list
    \<Rightarrow> (error + unit) \<times> AuctionEntityMongo list" where
  "store_insertOne fault doc c =
     (case fault of
        Some err \<Rightarrow> (Inl err, c)
      | None \<Rightarrow>
          (if list_ex (\<lambda>d. Id' d = Id' doc) c then (Inl DuplicateKey, c)
           else (Inr (), c @ [doc])))"

text \<open>
  Every call the repository makes on the store is recorded with the collection it went
  to, its arguments and the answer it got.
\<close>

datatype store_call =
  InsertOne_call string AuctionEntityMongo "error + unit"
| UpdateMany_call string bson_filter bson_update "error + UpdateResult"

text \<open>
  The world: the collections of the database by name, the calls made on the store so
  far, the log written so far, and the mutexes that are currently held (by address).
\<close>

record world =
  db :: "string \<Rightarrow> AuctionEntityMongo list"
  calls :: "store_call list"
  logged :: "log_entry list"
  held :: "nat \<Rightarrow> bool"

definition logger_Info :: "string \<Rightarrow> zap_field list \<Rightarrow> world \<Rightarrow> world" where
  "logger_Info msg fs w = w\<lparr>logged := logged w @ [Info msg fs]\<rparr>"

definition logger_Error :: "string \<Rightarrow> error \<Rightarrow> world \<Rightarrow> world" where
  "logger_Error msg err w = w\<lparr>logged := logged w @ [Error msg err]\<rparr>"

definition Collection_UpdateMany ::
  "string \<Rightarrow> error option \<Rightarrow> bson_filter \<Rightarrow> bson_update \<Rightarrow> world
    \<Rightarrow> (error + UpdateResult) \<times> world" where
  "Collection_UpdateMany coll fault f u w =
     (let (res, c') = store_updateMany fault f u (db w coll)
      in (res, w\<lparr>db := (db w)(coll := c'), calls := calls w @ [UpdateMany_call coll f u res]\<rparr>))"

definition Collection_InsertOne ::
  "string \<Rightarrow> error option \<Rightarrow> AuctionEntityMongo \<Rightarrow> world \<Rightarrow> (error + unit) \<times> world" where
  "Collection_InsertOne coll fault doc w =
     (let (res, c') = store_insertOne fault doc (db w coll)
      in (res, w\<lparr>db := (db w)(coll := c'), calls := calls w @ [InsertOne_call coll doc res]\<rparr>))"

section \<open>The repository of \<open>create_auction.go\<close>\<close>

record AuctionRepository =
  Collection :: string
  auctionInterval :: Duration

text \<open>
  \<open>os.Getenv\<close> gives the empty string for a variable that is not set.
  \<open>time.ParseDuration\<close> belongs to Go's library: it is a parameter \<open>parse\<close> of the
  resolver, giving an error or a duration for every string.
\<close>

definition os_Getenv :: "(string \<rightharpoonup> string) \<Rightarrow> string \<Rightarrow> string" where
  "os_Getenv env k = (case env k of None \<Rightarrow> [] | Some v \<Rightarrow> v)"

definition getAuctionInterval :: "(string \<Rightarrow> error + Duration) \<Rightarrow> (string \<rightharpoonup> string) \<Rightarrow> Duration" where
  "getAuctionInterval parse env =
     (let auctionInterval = os_Getenv env ''AUCTION_INTERVAL''
      in case parse auctionInterval of
           Inl err \<Rightarrow> Minute * 5
         | Inr duration \<Rightarrow> duration)"

text \<open>
  \<open>NewAuctionRepository\<close> builds the repository on the collection \<open>auctions\<close> with the
  resolved interval (and starts \<open>startAuctionCloser\<close> as a goroutine, which is modelled
  below as a function of the cases its \<open>select\<close> takes).
\<close>

definition NewAuctionRepository :: "(string \<Rightarrow> error + Duration) \<Rightarrow> (string \<rightharpoonup> string) \<Rightarrow> AuctionRepository" where
  "NewAuctionRepository parse env =
     \<lparr>Collection = ''auctions'', auctionInterval = getAuctionInterval parse env\<rparr>"

definition CreateAuction ::
  "'a AuctionRepository_scheme \<Rightarrow> error option \<Rightarrow> Auction \<Rightarrow> world \<Rightarrow> InternalError option \<times> world" where
  "CreateAuction ar fault auctionEntity w =
     (let auctionEntityMongo =
            \<lparr>Id' = auction_Id auctionEntity,
             ProductName = auction_ProductName auctionEntity,
             Category = auction_Category auctionEntity,
             Description = auction_Description auctionEntity,
             Condition = auction_Condition auctionEntity,
             Status = auction_Status auctionEntity,
             Timestamp = word_of_int (Unix (auction_Timestamp auctionEntity))\<rparr>;
          (res, w') = Collection_InsertOne (Collection ar) fault auctionEntityMongo w
      in case res of
           Inl err \<Rightarrow>
             (Some (NewInternalServerError ''Error trying to insert auction''),
              logger_Error ''Error trying to insert auction'' err w')
         | Inr _ \<Rightarrow> (None, w'))"

text \<open>The tick period of \<open>startAuctionCloser\<close>: half the interval, and at least one second.\<close>

definition checkInterval :: "'a AuctionRepository_scheme \<Rightarrow> Duration" where
  "checkInterval ar =
     (let checkInterval = word_of_int (sint (auctionInterval ar) sdiv 2)
      in if checkInterval <s Second then Second else checkInterval)"

text \<open>
  The threshold of a sweep that reads the clock at \<open>now\<close>:
  \<open>time.Now().Add(-ar.auctionInterval).Unix()\<close>, the same expression in both variants.
\<close>

definition expirationThreshold :: "'a AuctionRepository_scheme \<Rightarrow> Time \<Rightarrow> int" where
  "expirationThreshold ar now = Unix (Add now (- auctionInterval ar))"

text \<open>
  \<open>closeExpiredAuctions\<close> of \<open>create_auction.go\<close>, at the clock reading \<open>now\<close> and with the
  store answering as \<open>fault\<close> says.
\<close>

definition closeExpiredAuctions :: "AuctionRepository \<Rightarrow> Time \<Rightarrow> error option \<Rightarrow> world \<Rightarrow> world" where
  "closeExpiredAuctions ar now fault w =
     (let filter = \<lparr>filter_status = Active, filter_timestamp = Lte (expirationThreshold ar now)\<rparr>;
          update = Set_status Completed;
          (res, w') = Collection_UpdateMany (Collection ar) fault filter update w
      in case res of
           Inl err \<Rightarrow> logger_Error ''Error trying to close expired auctions'' err w'
         | Inr result \<Rightarrow>
             (if ModifiedCount result > 0
              then logger_Info ''Successfully closed %d expired auction(s)''
                     [Int64 ''%d'' (ModifiedCount result)] w'
              else w'))"

text \<open>
  The loop of \<open>startAuctionCloser\<close>. Each element of the list is the case one \<open>select\<close>
  takes: \<open>ctx.Done()\<close>, or a tick of the ticker together with what the sweep then gets
  from the clock and the store. The result says whether the loop has returned or waits
  in \<open>select\<close> for the next case.
\<close>

datatype 'e select_case = CtxDone | TickerC 'e

datatype loop_status = Waiting | Returned

fun startAuctionCloser ::
  "AuctionRepository \<Rightarrow> (Time \<times> error option) select_case list \<Rightarrow> world \<Rightarrow> loop_status \<times> world" where
  "startAuctionCloser ar [] w = (Waiting, w)"
| "startAuctionCloser ar (CtxDone # rest) w = (Returned, w)"
| "startAuctionCloser ar (TickerC (now, fault) # rest) w =
     startAuctionCloser ar rest (closeExpiredAuctions ar now fault w)"

text \<open>
  The operations of the core in any order: creations and sweeps, each with what it gets
  from its environment.
\<close>

datatype 'e core_op = Create_op "error option" Auction | Sweep_op 'e

fun core_step :: "AuctionRepository \<Rightarrow> (Time \<times> error option) core_op \<Rightarrow> world \<Rightarrow> world" where
  "core_step ar (Create_op fault auctionEntity) w = snd (CreateAuction ar fault auctionEntity w)"
| "core_step ar (Sweep_op (now, fault)) w = closeExpiredAuctions ar now fault w"

fun core_run :: "AuctionRepository \<Rightarrow> (Time \<times> error option) core_op list \<Rightarrow> world \<Rightarrow> world" where
  "core_run ar [] w = w"
| "core_run ar (x # xs) w = core_run ar xs (core_step ar x w)"

section \<open>The repository of the second source file (\<open>part_001\<close>)\<close>

text \<open>
  The second variant of the file adds a mutex to the repository, takes the name of the
  collection as an argument of its constructor, compares timestamps strictly (\<open>$lt\<close>) and
  logs every sweep. Its \<open>CreateAuction\<close>, \<open>getAuctionInterval\<close> and tick period are
  the same text as above. A mutex is an address; \<open>Lock\<close> on a mutex that is held does
  not return (\<open>None\<close>).
\<close>

record AuctionRepository_part_001 = AuctionRepository +
  mutex :: nat

definition NewAuctionRepositoryWithCollection ::
  "(string \<Rightarrow> error + Duration) \<Rightarrow> (string \<rightharpoonup> string) \<Rightarrow> string \<Rightarrow> nat \<Rightarrow> AuctionRepository_part_001" where
  "NewAuctionRepositoryWithCollection parse env collectionName m =
     \<lparr>Collection = collectionName, auctionInterval = getAuctionInterval parse env, mutex = m\<rparr>"


definition mutex_Lock :: "nat \<Rightarrow> world \<Rightarrow> world option" where
  "mutex_Lock m w = (if held w m then None else Some (w\<lparr>held := (held w)(m := True)\<rparr>))"

definition mutex_Unlock :: "nat \<Rightarrow> world \<Rightarrow> world" where
  "mutex_Unlock m w = w\<lparr>held := (held w)(m := False)\<rparr>"

text \<open>
  \<open>closeExpiredAuctions\<close> of \<open>part_001\<close>. It reads the clock twice: \<open>now\<close> for the
  threshold and \<open>now_logged\<close> for the log line. The deferred \<open>Unlock\<close> runs on both
  ways out.
\<close>

definition closeExpiredAuctions_part_001 ::
  "AuctionRepository_part_001 \<Rightarrow> Time \<Rightarrow> Time \<Rightarrow> error option \<Rightarrow> world \<Rightarrow> world option" where
  "closeExpiredAuctions_part_001 ar now now_logged fault w =
     (case mutex_Lock (mutex ar) w of
        None \<Rightarrow> None
      | Some w1 \<Rightarrow>
          (let filter = \<lparr>filter_status = Active, filter_timestamp = Lt (expirationThreshold ar now)\<rparr>;
               update = Set_status Completed;
               w2 = logger_Info ''Checking for expired auctions''
                      [Int64 ''threshold'' (expirationThreshold ar now), Int64 ''now'' (Unix now_logged)] w1;
               (res, w3) = Collection_UpdateMany (Collection ar) fault filter update w2
           in Some (mutex_Unlock (mutex ar)
                (case res of
                   Inl err \<Rightarrow> logger_Error ''Error trying to close expired auctions'' err w3
                 | Inr result \<Rightarrow>
                     (if ModifiedCount result > 0
                      then logger_Info ''Successfully closed expired auctions''
                             [Int64 ''count'' (ModifiedCount result)] w3
                      else logger_Info ''No expired auctions found'' [] w3)))))"

fun startAuctionCloser_part_001 ::
  "AuctionRepository_part_001 \<Rightarrow> (Time \<times> Time \<times> error option) select_case list \<Rightarrow> world
    \<Rightarrow> (loop_status \<times> world) option" where
  "startAuctionCloser_part_001 ar [] w = Some (Waiting, w)"
| "startAuctionCloser_part_001 ar (CtxDone # rest) w = Some (Returned, w)"
| "startAuctionCloser_part_001 ar (TickerC (now, now_logged, fault) # rest) w =
     (case closeExpiredAuctions_part_001 ar now now_logged fault w of
        None \<Rightarrow> None
      | Some w' \<Rightarrow> startAuctionCloser_part_001 ar rest w')"

fun core_step_part_001 ::
  "AuctionRepository_part_001 \<Rightarrow> (Time \<times> Time \<times> error option) core_op \<Rightarrow> world \<Rightarrow> world option" where
  "core_step_part_001 ar (Create_op fault auctionEntity) w = Some (snd (CreateAuction ar fault auctionEntity w))"
| "core_step_part_001 ar (Sweep_op (now, now_logged, fault)) w =
     closeExpiredAuctions_part_001 ar now now_logged fault w"

fun core_run_part_001 ::
  "AuctionRepository_part_001 \<Rightarrow> (Time \<times> Time \<times> error option) core_op list \<Rightarrow> world \<Rightarrow> world option" where
  "core_run_part_001 ar [] w = Some w"
| "core_run_part_001 ar (x # xs) w =
     (case core_step_part_001 ar x w of None \<Rightarrow> None | Some w' \<Rightarrow> core_run_part_001 ar xs w')"

section \<open>The sweep in the words of the specification\<close>

text \<open>
  The specification's reading of a sweep, to be compared with the code: an entity is
  eligible when its status is Active and \<open>createdAt \<le> now - interval\<close>, with \<open>createdAt\<close>
  the stored whole seconds and the subtraction exact; a sweep sets the status of exactly
  the eligible entities to Completed.
\<close>

definition eligible :: "Duration \<Rightarrow> Time \<Rightarrow> AuctionEntityMongo \<Rightarrow> bool" where
  "eligible interval now d =
     (Status d = Active \<and> sint (Timestamp d) * 1000000000 \<le> now - sint interval)"

definition spec_sweep :: "Duration \<Rightarrow> Time \<Rightarrow> AuctionEntityMongo list \<Rightarrow> AuctionEntityMongo list" where
  "spec_sweep interval now c = map (\<lambda>d. if eligible interval now d then d\<lparr>Status := Completed\<rparr> else d) c"

text \<open>
  The strict reading, \<open>timestamp < now - interval\<close> on whole seconds: the entity's second
  lies wholly before \<open>now - interval\<close>.
\<close>

definition eligible_strict :: "Duration \<Rightarrow> Time \<Rightarrow> AuctionEntityMongo \<Rightarrow> bool" where
  "eligible_strict interval now d =
     (Status d = Active \<and> (sint (Timestamp d) + 1) * 1000000000 \<le> now - sint interval)"

definition spec_sweep_strict :: "Duration \<Rightarrow> Time \<Rightarrow> AuctionEntityMongo list \<Rightarrow> AuctionEntityMongo list" where
  "spec_sweep_strict interval now c =
     map (\<lambda>d. if eligible_strict interval now d then d\<lparr>Status := Completed\<rparr> else d) c"

section \<open>Sample inputs\<close>

text \<open>
  A repository of each variant with an interval of two seconds, and a collection of
  three Active auctions read at \<open>now\<close> = 10 s after the epoch: one created 3 s ago, one
  exactly 2 s ago, one just now.
\<close>

definition sample_repo :: AuctionRepository where
  "sample_repo = \<lparr>Collection = ''auctions'', auctionInterval = 2 * Second\<rparr>"

definition sample_repo_part_001 :: AuctionRepository_part_001 where
  "sample_repo_part_001 = \<lparr>Collection = ''auctions'', auctionInterval = 2 * Second, mutex = 0\<rparr>"

definition sample_doc :: "string \<Rightarrow> AuctionStatus \<Rightarrow> 64 word \<Rightarrow> AuctionEntityMongo" where
  "sample_doc i s t =
     \<lparr>Id' = i, ProductName = ''Test Product'', Category = ''Test Category'',
      Description = ''Test Description for the auction'', Condition = New,
      Status = s, Timestamp = t\<rparr>"

definition sample_docs :: "AuctionEntityMongo list" where
  "sample_docs =
     [sample_doc ''expired'' Active 7, sample_doc ''boundary'' Active 8, sample_doc ''fresh'' Active 10]"

definition sample_world :: world where
  "sample_world =
     \<lparr>db = (\<lambda>name. if name = ''auctions'' then sample_docs else []),
      calls = [], logged = [], held = (\<lambda>m. False)\<rparr>"

definition sample_now :: Time where
  "sample_now = 10000000000"

text \<open>
  A world whose first auction is already Completed, an attempt to create an Active
  auction under the same identifier, and runs that sweep, create and sweep again five
  seconds later.
\<close>

definition sample_closed_world :: world where
  "sample_closed_world =
     \<lparr>db = (\<lambda>name. if name = ''auctions''
                    then [sample_doc ''closed'' Completed 7, sample_doc ''fresh'' Active 10] else []),
      calls = [], logged = [], held = (\<lambda>m. False)\<rparr>"

definition sample_auction :: Auction where
  "sample_auction =
     \<lparr>auction_Id = ''closed'', auction_ProductName = ''Test Product'',
      auction_Category = ''Test Category'', auction_Description = ''Test Description for the auction'',
      auction_Condition = Used, auction_Status = Active, auction_Timestamp = 10500000000\<rparr>"


definition sample_ops :: "(Time \<times> error option) core_op list" where
  "sample_ops =
     [Sweep_op (sample_now, None), Create_op None sample_auction, Sweep_op (sample_now + 5000000000, None)]"

text \<open>
  A stand-in for \<open>time.ParseDuration\<close> on a handful of strings, for the sample inputs
  only: the durations Go parses from them, and an error for every other string (the
  empty one among them). The last string is the least duration, \<open>math.MinInt64\<close>
  nanoseconds, as Go prints and parses it.
\<close>

definition sample_parse :: "string \<Rightarrow> error + Duration" where
  "sample_parse s =
     (if s = ''2s'' then Inr (2 * Second)
      else if s = ''20s'' then Inr (20 * Second)
      else if s = ''0s'' then Inr 0
      else if s = ''-5s'' then Inr (- (5 * Second))
      else if s = ''-2562047h47m16.854775808s'' then Inr minDuration
      else Inl (InvalidDuration s))"

definition sample_env :: "string \<Rightarrow> string \<rightharpoonup> string" where
  "sample_env v = [''AUCTION_INTERVAL'' \<mapsto> v]"

definition sample_ops_part_001 :: "(Time \<times> Time \<times> error option) core_op list" where
  "sample_ops_part_001 =
     [Sweep_op (sample_now, sample_now, None), Create_op None sample_auction,
      Sweep_op (sample_now + 5000000000, sample_now + 5000000000, None)]"

section \<open>Arithmetic of durations and Unix seconds\<close>

lemma le_div_iff_int:
  fixes v t c :: int
  assumes "0 < c"
  shows "(v \<le> t div c) = (v * c \<le> t)"
proof
  assume "v \<le> t div c"
  then have "v * c \<le> (t div c) * c" using assms by simp
  moreover have "t div c * c + t mod c = t" by simp
  moreover have "0 \<le> t mod c" using assms by simp
  ultimately show "v * c \<le> t" by linarith
next
  assume "v * c \<le> t"
  then have "(v * c) div c \<le> t div c" using assms by (rule zdiv_mono1)
  then show "v \<le> t div c" using assms by simp
qed

lemma Unix_le_iff: "(v \<le> Unix t) = (v * 1000000000 \<le> t)"
  unfolding Unix_def by (rule le_div_iff_int) simp

lemma Unix_less_iff: "(v < Unix t) = ((v + 1) * 1000000000 \<le> t)"
proof -
  have "(v < Unix t) = (v + 1 \<le> Unix t)" by linarith
  then show ?thesis by (simp only: Unix_le_iff)
qed

lemma sint_Duration_range:
  fixes d :: Duration
  shows "- 9223372036854775808 \<le> sint d" and "sint d < 9223372036854775808"
  using sint_ge [of d] sint_lt [of d] by simp_all

lemma sint_eq_min_Duration:
  fixes d :: Duration
  assumes "sint d = - 9223372036854775808"
  shows "d = minDuration"
proof -
  have "d = word_of_int (sint d)" by simp
  then show ?thesis using assms by (simp add: minDuration_def)
qed

lemma sint_neg_Duration:
  fixes d :: Duration
  assumes "d \<noteq> minDuration"
  shows "sint (- d) = - sint d"
proof -
  have "sint d \<noteq> - 9223372036854775808" using assms sint_eq_min_Duration by blast
  then have lo: "- (2 ^ 63) \<le> - sint d" and hi: "- sint d < 2 ^ 63"
    using sint_Duration_range [of d] by simp_all
  have "sint (- d) = signed_take_bit 63 (- sint d)"
    by (simp add: sint_word_minus)
  also have "\<dots> = - sint d"
    using lo hi by (simp add: signed_take_bit_int_eq_self)
  finally show ?thesis .
qed

lemma sint_neg_le:
  fixes d :: Duration
  shows "sint (- d) \<le> - sint d"
proof (cases "d = minDuration")
  case True
  then show ?thesis by (simp add: minDuration_def)
next
  case False
  then show ?thesis by (simp add: sint_neg_Duration)
qed

lemma expirationThreshold_exact:
  assumes "auctionInterval ar \<noteq> minDuration"
  shows "expirationThreshold ar now = (now - sint (auctionInterval ar)) div 1000000000"
  using assms by (simp add: expirationThreshold_def Add_def Unix_def sint_neg_Duration)

lemma le_expirationThreshold_iff:
  assumes "auctionInterval ar \<noteq> minDuration"
  shows "(v \<le> expirationThreshold ar now) = (v * 1000000000 \<le> now - sint (auctionInterval ar))"
  using assms by (simp add: expirationThreshold_def Add_def Unix_le_iff sint_neg_Duration)

lemma less_expirationThreshold_iff:
  assumes "auctionInterval ar \<noteq> minDuration"
  shows "(v < expirationThreshold ar now) = ((v + 1) * 1000000000 \<le> now - sint (auctionInterval ar))"
  using assms by (simp add: expirationThreshold_def Add_def Unix_less_iff sint_neg_Duration)

lemma expirationThreshold_upper:
  "expirationThreshold ar now * 1000000000 \<le> now - sint (auctionInterval ar)"
proof -
  have "expirationThreshold ar now * 1000000000 \<le> now + sint (- auctionInterval ar)"
    using Unix_le_iff [of "expirationThreshold ar now" "Add now (- auctionInterval ar)"]
    by (simp add: expirationThreshold_def Add_def)
  then show ?thesis using sint_neg_le [of "auctionInterval ar"] by linarith
qed

section \<open>The store\<close>

lemma store_updateMany_fault:
  "store_updateMany (Some err) f u c = (Inl err, c)"
  by (simp add: store_updateMany_def)

lemma store_updateMany_ok:
  "store_updateMany None f u c =
     (Inr \<lparr>ModifiedCount = int (length (filter (\<lambda>d. matches f d \<and> apply_update u d \<noteq> d) c))\<rparr>,
      map (\<lambda>d. if matches f d then apply_update u d else d) c)"
  by (simp add: store_updateMany_def)

lemma length_store_updateMany:
  "length (snd (store_updateMany fault f u c)) = length c"
  by (cases fault) (simp_all add: store_updateMany_def)

lemma nth_store_updateMany:
  assumes "i < length c"
  shows "snd (store_updateMany fault f u c) ! i =
           (if fault = None \<and> matches f (c ! i) then apply_update u (c ! i) else c ! i)"
  using assms by (cases fault) (simp_all add: store_updateMany_def)

lemma matches_after_close:
  assumes "filter_status f = Active"
  shows "\<not> matches f (d\<lparr>Status := Completed\<rparr>)"
  using assms by (simp add: matches_def)

lemma store_updateMany_twice:
  assumes "filter_status f = Active"
  shows "store_updateMany None f (Set_status Completed) (snd (store_updateMany None f (Set_status Completed) c))
           = (Inr \<lparr>ModifiedCount = 0\<rparr>, snd (store_updateMany None f (Set_status Completed) c))"
proof -
  let ?g = "\<lambda>d. if matches f d then apply_update (Set_status Completed) d else d"
  have no_change: "\<not> (matches f (?g d) \<and> apply_update (Set_status Completed) (?g d) \<noteq> ?g d)" for d
    using assms by (auto simp add: matches_def)
  have fixed: "?g (?g d) = ?g d" for d
    using assms by (auto simp add: matches_def)
  have "filter (\<lambda>d. matches f d \<and> apply_update (Set_status Completed) d \<noteq> d) (map ?g c) = []"
    unfolding filter_empty_conv using no_change by auto
  moreover have "map ?g (map ?g c) = map ?g c"
    using fixed by (simp add: comp_def)
  ultimately show ?thesis
    by (simp only: store_updateMany_ok snd_conv list.size int_ops)
qed

section \<open>What one sweep does to the world\<close>

lemma closeExpiredAuctions_world:
  "closeExpiredAuctions ar now fault w =
     (let f = \<lparr>filter_status = Active, filter_timestamp = Lte (expirationThreshold ar now)\<rparr>;
          r = store_updateMany fault f (Set_status Completed) (db w (Collection ar))
      in w\<lparr>db := (db w)(Collection ar := snd r),
           calls := calls w @ [UpdateMany_call (Collection ar) f (Set_status Completed) (fst r)],
           logged := logged w @
             (case fst r of
                Inl err \<Rightarrow> [Error ''Error trying to close expired auctions'' err]
              | Inr result \<Rightarrow>
                  (if ModifiedCount result > 0
                   then [Info ''Successfully closed %d expired auction(s)'' [Int64 ''%d'' (ModifiedCount result)]]
                   else []))\<rparr>)"
  by (cases fault)
    (simp_all add: closeExpiredAuctions_def Collection_UpdateMany_def store_updateMany_def
      logger_Info_def logger_Error_def Let_def)

lemma closeExpiredAuctions_part_001_world:
  "closeExpiredAuctions_part_001 ar now now_logged fault w =
     (if held w (mutex ar) then None
      else
        (let f = \<lparr>filter_status = Active, filter_timestamp = Lt (expirationThreshold ar now)\<rparr>;
             r = store_updateMany fault f (Set_status Completed) (db w (Collection ar))
         in Some (w\<lparr>db := (db w)(Collection ar := snd r),
              calls := calls w @ [UpdateMany_call (Collection ar) f (Set_status Completed) (fst r)],
              logged := logged w @
                [Info ''Checking for expired auctions''
                   [Int64 ''threshold'' (expirationThreshold ar now), Int64 ''now'' (Unix now_logged)],
                 case fst r of
                   Inl err \<Rightarrow> Error ''Error trying to close expired auctions'' err
                 | Inr result \<Rightarrow>
                     (if ModifiedCount result > 0
                      then Info ''Successfully closed expired auctions'' [Int64 ''count'' (ModifiedCount result)]
                      else Info ''No expired auctions found'' [])]\<rparr>)))"
proof (cases "held w (mutex ar)")
  case True
  then show ?thesis by (simp add: closeExpiredAuctions_part_001_def mutex_Lock_def)
next
  case False
  then have idle: "(held w)(mutex ar := False) = held w" by (simp add: fun_upd_idem)
  show ?thesis using False idle
    by (cases fault)
      (simp_all add: closeExpiredAuctions_part_001_def mutex_Lock_def mutex_Unlock_def
        Collection_UpdateMany_def store_updateMany_def logger_Info_def logger_Error_def Let_def)
qed

lemma closed_doc_differs:
  assumes "Status d = Active"
  shows "d\<lparr>Status := Completed\<rparr> \<noteq> d"
proof
  assume "d\<lparr>Status := Completed\<rparr> = d"
  then have "Status (d\<lparr>Status := Completed\<rparr>) = Status d" by simp
  then show False using assms by simp
qed

lemma modified_iff_matches:
  assumes "filter_status f = Active"
  shows "(matches f d \<and> apply_update (Set_status Completed) d \<noteq> d) = matches f d"
  using assms closed_doc_differs [of d] by (auto simp add: matches_def)

lemma matches_Lte_eligible:
  assumes "auctionInterval ar \<noteq> minDuration"
  shows "matches \<lparr>filter_status = Active, filter_timestamp = Lte (expirationThreshold ar now)\<rparr> d
           = eligible (auctionInterval ar) now d"
  using assms by (simp add: matches_def eligible_def le_expirationThreshold_iff)

lemma matches_Lt_eligible_strict:
  assumes "auctionInterval ar \<noteq> minDuration"
  shows "matches \<lparr>filter_status = Active, filter_timestamp = Lt (expirationThreshold ar now)\<rparr> d
           = eligible_strict (auctionInterval ar) now d"
  using assms by (simp add: matches_def eligible_strict_def less_expirationThreshold_iff)

lemma store_updateMany_Active:
  assumes "filter_status f = Active"
  shows "store_updateMany None f (Set_status Completed) c
         = (Inr \<lparr>ModifiedCount = int (length (filter (matches f) c))\<rparr>,
            map (\<lambda>d. if matches f d then d\<lparr>Status := Completed\<rparr> else d) c)"
proof -
  have eq: "(\<lambda>d. matches f d \<and> apply_update (Set_status Completed) d \<noteq> d) = matches f"
    using modified_iff_matches [OF assms] by blast
  show ?thesis unfolding store_updateMany_ok eq by (simp cong: if_cong)
qed

lemma store_updateMany_Lte_spec:
  assumes "auctionInterval ar \<noteq> minDuration"
  shows "store_updateMany None \<lparr>filter_status = Active, filter_timestamp = Lte (expirationThreshold ar now)\<rparr>
            (Set_status Completed) c
         = (Inr \<lparr>ModifiedCount = int (length (filter (eligible (auctionInterval ar) now) c))\<rparr>,
            spec_sweep (auctionInterval ar) now c)"
proof -
  have eq: "matches \<lparr>filter_status = Active, filter_timestamp = Lte (expirationThreshold ar now)\<rparr>
              = eligible (auctionInterval ar) now"
    using matches_Lte_eligible [OF assms] by blast
  show ?thesis by (simp add: store_updateMany_Active eq spec_sweep_def)
qed

lemma store_updateMany_Lt_spec:
  assumes "auctionInterval ar \<noteq> minDuration"
  shows "store_updateMany None \<lparr>filter_status = Active, filter_timestamp = Lt (expirationThreshold ar now)\<rparr>
            (Set_status Completed) c
         = (Inr \<lparr>ModifiedCount = int (length (filter (eligible_strict (auctionInterval ar) now) c))\<rparr>,
            spec_sweep_strict (auctionInterval ar) now c)"
proof -
  have eq: "matches \<lparr>filter_status = Active, filter_timestamp = Lt (expirationThreshold ar now)\<rparr>
              = eligible_strict (auctionInterval ar) now"
    using matches_Lt_eligible_strict [OF assms] by blast
  show ?thesis by (simp add: store_updateMany_Active eq spec_sweep_strict_def)
qed

lemma calls_closeExpiredAuctions:
  "calls (closeExpiredAuctions ar now fault w) =
     calls w @ [UpdateMany_call (Collection ar)
        \<lparr>filter_status = Active, filter_timestamp = Lte (expirationThreshold ar now)\<rparr>
        (Set_status Completed)
        (fst (store_updateMany fault
           \<lparr>filter_status = Active, filter_timestamp = Lte (expirationThreshold ar now)\<rparr>
           (Set_status Completed) (db w (Collection ar))))]"
  by (simp add: closeExpiredAuctions_world Let_def)

lemma db_closeExpiredAuctions:
  "db (closeExpiredAuctions ar now fault w) =
     (db w)(Collection ar :=
        snd (store_updateMany fault
           \<lparr>filter_status = Active, filter_timestamp = Lte (expirationThreshold ar now)\<rparr>
           (Set_status Completed) (db w (Collection ar))))"
  by (simp add: closeExpiredAuctions_world Let_def)

lemma held_closeExpiredAuctions:
  "held (closeExpiredAuctions ar now fault w) = held w"
  by (simp add: closeExpiredAuctions_world Let_def)

lemma closeExpiredAuctions_part_001_returns:
  assumes "\<not> held w (mutex ar)"
  shows "\<exists>w'. closeExpiredAuctions_part_001 ar now now_logged fault w = Some w'
           \<and> held w' = held w
           \<and> db w' = (db w)(Collection ar :=
                snd (store_updateMany fault
                   \<lparr>filter_status = Active, filter_timestamp = Lt (expirationThreshold ar now)\<rparr>
                   (Set_status Completed) (db w (Collection ar))))
           \<and> calls w' = calls w @ [UpdateMany_call (Collection ar)
                \<lparr>filter_status = Active, filter_timestamp = Lt (expirationThreshold ar now)\<rparr>
                (Set_status Completed)
                (fst (store_updateMany fault
                   \<lparr>filter_status = Active, filter_timestamp = Lt (expirationThreshold ar now)\<rparr>
                   (Set_status Completed) (db w (Collection ar))))]"
  using assms by (simp add: closeExpiredAuctions_part_001_world Let_def)

section \<open>C1: what one sweep transitions\<close>

text \<open>
  Claim C1, as the code has it. One sweep makes exactly one call on the store, an
  \<open>UpdateMany\<close> on the repository's collection that sets the status to Completed, whatever
  the store answers. For every interval but the least \<open>int64\<close> (whose negation wraps), the
  filter of \<open>create_auction.go\<close> (\<open>$lte\<close>) matches exactly the entities that are Active with
  \<open>createdAt \<le> now - interval\<close>, boundary included, and when the store accepts the call the
  collection after the sweep is the one before with exactly those set to Completed. The
  filter of \<open>part_001\<close> (\<open>$lt\<close>) matches exactly the Active entities whose second lies
  wholly before \<open>now - interval\<close>: the boundary is excluded there.
\<close>

theorem sweep_closes_the_expired:
  fixes ar :: AuctionRepository and ar' :: AuctionRepository_part_001
  assumes "auctionInterval ar \<noteq> minDuration" and "auctionInterval ar' \<noteq> minDuration"
    and "\<not> held w (mutex ar')"
  shows "(\<exists>res. calls (closeExpiredAuctions ar now fault w) =
            calls w @ [UpdateMany_call (Collection ar)
              \<lparr>filter_status = Active, filter_timestamp = Lte (expirationThreshold ar now)\<rparr>
              (Set_status Completed) res])
       \<and> matches \<lparr>filter_status = Active, filter_timestamp = Lte (expirationThreshold ar now)\<rparr> d
           = eligible (auctionInterval ar) now d
       \<and> db (closeExpiredAuctions ar now None w) =
           (db w)(Collection ar := spec_sweep (auctionInterval ar) now (db w (Collection ar)))
       \<and> (\<exists>w' res. closeExpiredAuctions_part_001 ar' now now_logged fault w = Some w'
             \<and> calls w' = calls w @ [UpdateMany_call (Collection ar')
                  \<lparr>filter_status = Active, filter_timestamp = Lt (expirationThreshold ar' now)\<rparr>
                  (Set_status Completed) res])
       \<and> matches \<lparr>filter_status = Active, filter_timestamp = Lt (expirationThreshold ar' now)\<rparr> d
           = eligible_strict (auctionInterval ar') now d
       \<and> (\<exists>w'. closeExpiredAuctions_part_001 ar' now now_logged None w = Some w'
             \<and> db w' = (db w)(Collection ar' := spec_sweep_strict (auctionInterval ar') now (db w (Collection ar'))))"
proof -
  have c1: "\<exists>res. calls (closeExpiredAuctions ar now fault w) =
            calls w @ [UpdateMany_call (Collection ar)
              \<lparr>filter_status = Active, filter_timestamp = Lte (expirationThreshold ar now)\<rparr>
              (Set_status Completed) res]"
    using calls_closeExpiredAuctions by blast
  have c3: "db (closeExpiredAuctions ar now None w) =
           (db w)(Collection ar := spec_sweep (auctionInterval ar) now (db w (Collection ar)))"
    by (simp add: db_closeExpiredAuctions store_updateMany_Lte_spec [OF assms(1)])
  have c4: "\<exists>w' res. closeExpiredAuctions_part_001 ar' now now_logged fault w = Some w'
             \<and> calls w' = calls w @ [UpdateMany_call (Collection ar')
                  \<lparr>filter_status = Active, filter_timestamp = Lt (expirationThreshold ar' now)\<rparr>
                  (Set_status Completed) res]"
    using closeExpiredAuctions_part_001_returns [OF assms(3), of now now_logged fault] by blast
  have c6: "\<exists>w'. closeExpiredAuctions_part_001 ar' now now_logged None w = Some w'
             \<and> db w' = (db w)(Collection ar' := spec_sweep_strict (auctionInterval ar') now (db w (Collection ar')))"
    using closeExpiredAuctions_part_001_returns [OF assms(3), of now now_logged None]
    by (auto simp add: store_updateMany_Lt_spec [OF assms(2)])
  show ?thesis
    using c1 c3 c4 c6 matches_Lte_eligible [OF assms(1)] matches_Lt_eligible_strict [OF assms(2)]
    by blast
qed


text \<open>The sweep on the sample collection: both variants at the boundary, and the wrapped interval.\<close>

lemma sample_repo_simps:
  "Collection sample_repo = ''auctions''" "auctionInterval sample_repo = 2000000000"
  "Collection sample_repo_part_001 = ''auctions''" "auctionInterval sample_repo_part_001 = 2000000000"
  "mutex sample_repo_part_001 = 0"
  by (simp_all add: sample_repo_def sample_repo_part_001_def Second_def)

theorem sweep_closes_the_expired_witness:
  "auctionInterval sample_repo \<noteq> minDuration \<and> auctionInterval sample_repo_part_001 \<noteq> minDuration
   \<and> \<not> held sample_world (mutex sample_repo_part_001)
   \<and> map Status (db (closeExpiredAuctions sample_repo sample_now None sample_world) ''auctions'')
       = [Completed, Completed, Active]
   \<and> (\<exists>w'. closeExpiredAuctions_part_001 sample_repo_part_001 sample_now sample_now None sample_world = Some w'
         \<and> map Status (db w' ''auctions'') = [Completed, Active, Active])"
proof -
  have h1: "auctionInterval sample_repo \<noteq> minDuration"
    by (simp add: sample_repo_simps minDuration_def)
  have h2: "auctionInterval sample_repo_part_001 \<noteq> minDuration"
    by (simp add: sample_repo_simps minDuration_def)
  have h3: "\<not> held sample_world (mutex sample_repo_part_001)"
    by (simp add: sample_world_def)
  have s1: "map Status (spec_sweep 2000000000 sample_now sample_docs) = [Completed, Completed, Active]"
    by (simp add: spec_sweep_def eligible_def sample_docs_def sample_doc_def sample_now_def)
  have s2: "map Status (spec_sweep_strict 2000000000 sample_now sample_docs) = [Completed, Active, Active]"
    by (simp add: spec_sweep_strict_def eligible_strict_def sample_docs_def sample_doc_def sample_now_def)
  have d: "db sample_world ''auctions'' = sample_docs"
    by (simp add: sample_world_def)
  show ?thesis
    using h1 h2 h3 s1 s2 d
      sweep_closes_the_expired [OF h1 h2 h3, of sample_now None undefined sample_now]
    by (auto simp add: sample_repo_simps)
qed

text \<open>
  C1 as stated fails in two places. In \<open>part_001\<close> the auction created exactly
  \<open>interval\<close> ago is eligible and stays Active. In \<open>create_auction.go\<close> with the least
  interval, \<open>-interval\<close> wraps to itself, the threshold lies 292 years back, and the auction
  created now, which satisfies \<open>createdAt \<le> now - interval\<close>, stays Active.
\<close>

theorem sweep_boundary_counterexample:
  "eligible (auctionInterval sample_repo_part_001) sample_now (sample_docs ! 1)
   \<and> sample_docs ! 1 = db sample_world (Collection sample_repo_part_001) ! 1
   \<and> closeExpiredAuctions_part_001 sample_repo_part_001 sample_now sample_now None sample_world \<noteq> None
   \<and> Status (db (the (closeExpiredAuctions_part_001 sample_repo_part_001 sample_now sample_now None sample_world))
        (Collection sample_repo_part_001) ! 1) = Active
   \<and> eligible minDuration sample_now (sample_docs ! 2)
   \<and> sample_docs ! 2 = db sample_world ''auctions'' ! 2
   \<and> Status (db (closeExpiredAuctions \<lparr>Collection = ''auctions'', auctionInterval = minDuration\<rparr>
        sample_now None sample_world) ''auctions'' ! 2) = Active"
  by (simp add: closeExpiredAuctions_world closeExpiredAuctions_part_001_world store_updateMany_ok
      sample_repo_simps sample_world_def sample_docs_def sample_doc_def sample_now_def
      eligible_def matches_def expirationThreshold_def Add_def Unix_def minDuration_def Let_def)

section \<open>C2: the frame of a sweep\<close>

lemma not_matches_fresh:
  assumes "now - sint (auctionInterval ar) < sint (Timestamp d) * 1000000000"
  shows "\<not> matches \<lparr>filter_status = Active, filter_timestamp = Lte (expirationThreshold ar now)\<rparr> d"
    and "\<not> matches \<lparr>filter_status = Active, filter_timestamp = Lt (expirationThreshold ar now)\<rparr> d"
proof -
  have "expirationThreshold ar now * 1000000000 < sint (Timestamp d) * 1000000000"
    using assms expirationThreshold_upper [of ar now] by linarith
  then have "expirationThreshold ar now < sint (Timestamp d)" by simp
  then show "\<not> matches \<lparr>filter_status = Active, filter_timestamp = Lte (expirationThreshold ar now)\<rparr> d"
    and "\<not> matches \<lparr>filter_status = Active, filter_timestamp = Lt (expirationThreshold ar now)\<rparr> d"
    by (simp_all add: matches_def)
qed

lemma updated_db_frame:
  fixes dbw :: "string \<Rightarrow> AuctionEntityMongo list"
  assumes "dbw' = dbw(coll := snd (store_updateMany fault f (Set_status Completed) (dbw coll)))"
  shows "length (dbw' c) = length (dbw c)"
    and "i < length (dbw c) \<Longrightarrow> (dbw' c ! i)\<lparr>Status := Status (dbw c ! i)\<rparr> = dbw c ! i"
    and "i < length (dbw c) \<Longrightarrow> \<not> matches f (dbw c ! i) \<Longrightarrow> dbw' c ! i = dbw c ! i"
    and "c \<noteq> coll \<Longrightarrow> dbw' c = dbw c"
proof -
  show "length (dbw' c) = length (dbw c)"
    using assms by (simp add: length_store_updateMany)
  show "c \<noteq> coll \<Longrightarrow> dbw' c = dbw c"
    using assms by simp
  show "(dbw' c ! i)\<lparr>Status := Status (dbw c ! i)\<rparr> = dbw c ! i" if "i < length (dbw c)"
  proof (cases "c = coll")
    case True
    with that have "i < length (dbw coll)" by simp
    then show ?thesis using assms True by (simp add: nth_store_updateMany)
  next
    case False
    then show ?thesis using assms by simp
  qed
  show "dbw' c ! i = dbw c ! i" if "i < length (dbw c)" and "\<not> matches f (dbw c ! i)"
  proof (cases "c = coll")
    case True
    with that have "i < length (dbw coll)" and "\<not> matches f (dbw coll ! i)" by simp_all
    then show ?thesis using assms True by (simp add: nth_store_updateMany)
  next
    case False
    then show ?thesis using assms by simp
  qed
qed

text \<open>
  Claim C2. A sweep, whatever the store answers, keeps every document of every
  collection in its place: the collections keep their lengths, and each document after
  the sweep is the document before it up to its status. A document with
  \<open>createdAt > now - interval\<close>, and more generally a document the filter does not match,
  is identical after the sweep; collections other than the repository's are untouched.
  This holds for \<open>create_auction.go\<close> and, whenever its mutex is free, for \<open>part_001\<close>, which
  then returns.
\<close>

theorem sweep_frame:
  fixes ar :: AuctionRepository and ar' :: AuctionRepository_part_001
  assumes "\<not> held w (mutex ar')"
  shows "length (db (closeExpiredAuctions ar now fault w) c) = length (db w c)
       \<and> (i < length (db w c) \<longrightarrow>
            (db (closeExpiredAuctions ar now fault w) c ! i)\<lparr>Status := Status (db w c ! i)\<rparr> = db w c ! i)
       \<and> (i < length (db w c) \<and> now - sint (auctionInterval ar) < sint (Timestamp (db w c ! i)) * 1000000000 \<longrightarrow>
            db (closeExpiredAuctions ar now fault w) c ! i = db w c ! i)
       \<and> (i < length (db w c)
            \<and> \<not> matches \<lparr>filter_status = Active, filter_timestamp = Lte (expirationThreshold ar now)\<rparr> (db w c ! i) \<longrightarrow>
            db (closeExpiredAuctions ar now fault w) c ! i = db w c ! i)
       \<and> (c \<noteq> Collection ar \<longrightarrow> db (closeExpiredAuctions ar now fault w) c = db w c)
       \<and> (\<exists>w'. closeExpiredAuctions_part_001 ar' now now_logged fault w = Some w'
            \<and> length (db w' c) = length (db w c)
            \<and> (i < length (db w c) \<longrightarrow> (db w' c ! i)\<lparr>Status := Status (db w c ! i)\<rparr> = db w c ! i)
            \<and> (i < length (db w c) \<and> now - sint (auctionInterval ar') < sint (Timestamp (db w c ! i)) * 1000000000 \<longrightarrow>
                 db w' c ! i = db w c ! i)
            \<and> (i < length (db w c)
                 \<and> \<not> matches \<lparr>filter_status = Active, filter_timestamp = Lt (expirationThreshold ar' now)\<rparr> (db w c ! i) \<longrightarrow>
                 db w' c ! i = db w c ! i)
            \<and> (c \<noteq> Collection ar' \<longrightarrow> db w' c = db w c))"
proof -
  let ?f = "\<lparr>filter_status = Active, filter_timestamp = Lte (expirationThreshold ar now)\<rparr>"
  let ?f' = "\<lparr>filter_status = Active, filter_timestamp = Lt (expirationThreshold ar' now)\<rparr>"
  note fr = updated_db_frame [OF db_closeExpiredAuctions [of ar now fault w]]
  have a: "length (db (closeExpiredAuctions ar now fault w) c) = length (db w c)"
    by (rule fr(1))
  have b: "i < length (db w c) \<longrightarrow>
            (db (closeExpiredAuctions ar now fault w) c ! i)\<lparr>Status := Status (db w c ! i)\<rparr> = db w c ! i"
    using fr(2) by blast
  have d: "i < length (db w c) \<and> \<not> matches ?f (db w c ! i) \<longrightarrow>
            db (closeExpiredAuctions ar now fault w) c ! i = db w c ! i"
    using fr(3) by blast
  have cc: "i < length (db w c) \<and> now - sint (auctionInterval ar) < sint (Timestamp (db w c ! i)) * 1000000000 \<longrightarrow>
            db (closeExpiredAuctions ar now fault w) c ! i = db w c ! i"
    using d not_matches_fresh(1) [of now ar "db w c ! i"] by blast
  have e: "c \<noteq> Collection ar \<longrightarrow> db (closeExpiredAuctions ar now fault w) c = db w c"
    using fr(4) by blast
  obtain w' where ret: "closeExpiredAuctions_part_001 ar' now now_logged fault w = Some w'"
    and dbw': "db w' = (db w)(Collection ar' := snd (store_updateMany fault ?f' (Set_status Completed) (db w (Collection ar'))))"
    using closeExpiredAuctions_part_001_returns [OF assms, of now now_logged fault] by blast
  note fr' = updated_db_frame [OF dbw']
  have a': "length (db w' c) = length (db w c)"
    by (rule fr'(1))
  have b': "i < length (db w c) \<longrightarrow> (db w' c ! i)\<lparr>Status := Status (db w c ! i)\<rparr> = db w c ! i"
    using fr'(2) by blast
  have d': "i < length (db w c) \<and> \<not> matches ?f' (db w c ! i) \<longrightarrow> db w' c ! i = db w c ! i"
    using fr'(3) by blast
  have c': "i < length (db w c) \<and> now - sint (auctionInterval ar') < sint (Timestamp (db w c ! i)) * 1000000000 \<longrightarrow>
            db w' c ! i = db w c ! i"
    using d' not_matches_fresh(2) [of now ar' "db w c ! i"] by blast
  have e': "c \<noteq> Collection ar' \<longrightarrow> db w' c = db w c"
    using fr'(4) by blast
  show ?thesis
    using a b cc d e ret a' b' c' d' e' by blast
qed


text \<open>The auction created just now, and a collection of another name, on the sample world.\<close>

theorem sweep_frame_witness:
  "\<not> held sample_world (mutex sample_repo_part_001)
   \<and> (2::nat) < length (db sample_world ''auctions'')
   \<and> sample_now - sint (auctionInterval sample_repo) < sint (Timestamp (db sample_world ''auctions'' ! 2)) * 1000000000
   \<and> sample_now - sint (auctionInterval sample_repo_part_001) < sint (Timestamp (db sample_world ''auctions'' ! 2)) * 1000000000
   \<and> db (closeExpiredAuctions sample_repo sample_now None sample_world) ''auctions'' ! 2
       = db sample_world ''auctions'' ! 2
   \<and> ''bids'' \<noteq> Collection sample_repo \<and> ''bids'' \<noteq> Collection sample_repo_part_001
   \<and> db (closeExpiredAuctions sample_repo sample_now None sample_world) ''bids'' = db sample_world ''bids''
   \<and> (\<exists>w'. closeExpiredAuctions_part_001 sample_repo_part_001 sample_now sample_now None sample_world = Some w'
         \<and> db w' ''auctions'' ! 2 = db sample_world ''auctions'' ! 2
         \<and> db w' ''bids'' = db sample_world ''bids'')"
proof -
  have h: "\<not> held sample_world (mutex sample_repo_part_001)"
    by (simp add: sample_world_def)
  have len: "(2::nat) < length (db sample_world ''auctions'')"
    by (simp add: sample_world_def sample_docs_def)
  have fresh: "sample_now - sint (auctionInterval sample_repo) < sint (Timestamp (db sample_world ''auctions'' ! 2)) * 1000000000"
    "sample_now - sint (auctionInterval sample_repo_part_001) < sint (Timestamp (db sample_world ''auctions'' ! 2)) * 1000000000"
    by (simp_all add: sample_world_def sample_docs_def sample_doc_def sample_now_def sample_repo_simps)
  have other: "''bids'' \<noteq> Collection sample_repo" "''bids'' \<noteq> Collection sample_repo_part_001"
    by (simp_all add: sample_repo_simps)
  note A = sweep_frame [OF h, where c = "''auctions''" and i = 2 and ar = sample_repo and now = sample_now
        and fault = None and now_logged = sample_now]
  note B = sweep_frame [OF h, where c = "''bids''" and i = 2 and ar = sample_repo and now = sample_now
        and fault = None and now_logged = sample_now]
  have a: "db (closeExpiredAuctions sample_repo sample_now None sample_world) ''auctions'' ! 2
       = db sample_world ''auctions'' ! 2"
    using A len fresh(1) by blast
  have b: "db (closeExpiredAuctions sample_repo sample_now None sample_world) ''bids'' = db sample_world ''bids''"
    using B other(1) by blast
  obtain w' where r: "closeExpiredAuctions_part_001 sample_repo_part_001 sample_now sample_now None sample_world = Some w'"
    and a': "db w' ''auctions'' ! 2 = db sample_world ''auctions'' ! 2"
    using A len fresh(2) by blast
  have b': "db w' ''bids'' = db sample_world ''bids''"
    using B other(2) r by auto
  show ?thesis
    using h len fresh other a b r a' b' by blast
qed

section \<open>C3: the status only moves from Active to Completed\<close>

lemma store_insertOne_appends:
  "\<exists>docs. snd (store_insertOne fault doc c) = c @ docs"
  by (cases fault) (simp_all add: store_insertOne_def)

lemma db_CreateAuction:
  "\<exists>doc. db (snd (CreateAuction ar fault a w)) =
     (db w)(Collection ar := snd (store_insertOne fault doc (db w (Collection ar))))"
  by (rule exI [where x = "\<lparr>Id' = auction_Id a, ProductName = auction_ProductName a,
          Category = auction_Category a, Description = auction_Description a,
          Condition = auction_Condition a, Status = auction_Status a,
          Timestamp = word_of_int (Unix (auction_Timestamp a))\<rparr>"])
    (simp add: CreateAuction_def Collection_InsertOne_def logger_Error_def Let_def split_beta
      split: sum.split)

lemma held_CreateAuction:
  "held (snd (CreateAuction ar fault a w)) = held w"
  by (simp add: CreateAuction_def Collection_InsertOne_def logger_Error_def Let_def split_beta
      split: sum.split)

lemma CreateAuction_keeps:
  assumes "i < length (db w c)"
  shows "i < length (db (snd (CreateAuction ar fault a w)) c)
       \<and> db (snd (CreateAuction ar fault a w)) c ! i = db w c ! i"
proof -
  obtain doc where "db (snd (CreateAuction ar fault a w)) =
      (db w)(Collection ar := snd (store_insertOne fault doc (db w (Collection ar))))"
    using db_CreateAuction by blast
  moreover obtain docs where "snd (store_insertOne fault doc (db w (Collection ar))) = db w (Collection ar) @ docs"
    using store_insertOne_appends by blast
  ultimately have "db (snd (CreateAuction ar fault a w)) = (db w)(Collection ar := db w (Collection ar) @ docs)"
    by simp
  then show ?thesis using assms by (cases "c = Collection ar") (simp_all add: nth_append)
qed

lemma updated_db_step:
  fixes dbw :: "string \<Rightarrow> AuctionEntityMongo list"
  assumes "dbw' = dbw(coll := snd (store_updateMany fault f (Set_status Completed) (dbw coll)))"
    and "i < length (dbw c)"
  shows "i < length (dbw' c)
       \<and> (dbw' c ! i = dbw c ! i
           \<or> fault = None \<and> c = coll \<and> matches f (dbw c ! i)
             \<and> dbw' c ! i = (dbw c ! i)\<lparr>Status := Completed\<rparr>)"
proof (cases "c = coll")
  case True
  with assms(2) have "i < length (dbw coll)" by simp
  then show ?thesis using assms(1) True
    by (simp add: nth_store_updateMany length_store_updateMany)
next
  case False
  then show ?thesis using assms by simp
qed

lemma core_step_moves:
  assumes "i < length (db w c)"
  shows "i < length (db (core_step ar x w) c)
       \<and> (db (core_step ar x w) c ! i = db w c ! i
           \<or> (\<exists>now. x = Sweep_op (now, None) \<and> c = Collection ar
                \<and> Status (db w c ! i) = Active
                \<and> sint (Timestamp (db w c ! i)) \<le> expirationThreshold ar now
                \<and> db (core_step ar x w) c ! i = (db w c ! i)\<lparr>Status := Completed\<rparr>))"
proof (cases x)
  case (Create_op fault a)
  then show ?thesis using CreateAuction_keeps [OF assms] by simp
next
  case (Sweep_op e)
  obtain now fault where e: "e = (now, fault)" by (cases e)
  show ?thesis
    using updated_db_step [OF db_closeExpiredAuctions [of ar now fault w] assms] Sweep_op e
    by (auto simp add: matches_def)
qed

lemma core_step_part_001_moves:
  assumes "\<not> held w (mutex ar)"
  shows "\<exists>w'. core_step_part_001 ar x w = Some w' \<and> held w' = held w
         \<and> (i < length (db w c) \<longrightarrow>
              i < length (db w' c)
              \<and> (db w' c ! i = db w c ! i
                  \<or> (\<exists>now now_logged. x = Sweep_op (now, now_logged, None) \<and> c = Collection ar
                       \<and> Status (db w c ! i) = Active
                       \<and> sint (Timestamp (db w c ! i)) < expirationThreshold ar now
                       \<and> db w' c ! i = (db w c ! i)\<lparr>Status := Completed\<rparr>)))"
proof (cases x)
  case (Create_op fault a)
  then show ?thesis using CreateAuction_keeps [of i w c ar fault a] held_CreateAuction [of ar fault a w]
    by simp
next
  case (Sweep_op e)
  obtain now now_logged fault where e: "e = (now, now_logged, fault)" by (cases e)
  obtain w' where ret: "closeExpiredAuctions_part_001 ar now now_logged fault w = Some w'"
    and h: "held w' = held w"
    and d: "db w' = (db w)(Collection ar :=
                snd (store_updateMany fault
                   \<lparr>filter_status = Active, filter_timestamp = Lt (expirationThreshold ar now)\<rparr>
                   (Set_status Completed) (db w (Collection ar))))"
    using closeExpiredAuctions_part_001_returns [OF assms, of now now_logged fault] by blast
  show ?thesis
    using updated_db_step [OF d, of i c] Sweep_op e ret h
    by (auto simp add: matches_def)
qed


lemma core_run_moves:
  assumes "i < length (db w c)"
  shows "i < length (db (core_run ar xs w) c)
       \<and> (db (core_run ar xs w) c ! i = db w c ! i
           \<or> Status (db w c ! i) = Active
             \<and> db (core_run ar xs w) c ! i = (db w c ! i)\<lparr>Status := Completed\<rparr>)"
  using assms
proof (induction xs arbitrary: w)
  case Nil
  then show ?case by simp
next
  case (Cons x xs)
  let ?w1 = "core_step ar x w"
  have len1: "i < length (db ?w1 c)"
    and step: "db ?w1 c ! i = db w c ! i
       \<or> Status (db w c ! i) = Active \<and> db ?w1 c ! i = (db w c ! i)\<lparr>Status := Completed\<rparr>"
    using core_step_moves [OF Cons.prems, of ar x] by blast+
  have len: "i < length (db (core_run ar xs ?w1) c)"
    and rest: "db (core_run ar xs ?w1) c ! i = db ?w1 c ! i
       \<or> Status (db ?w1 c ! i) = Active
         \<and> db (core_run ar xs ?w1) c ! i = (db ?w1 c ! i)\<lparr>Status := Completed\<rparr>"
    using Cons.IH [OF len1] by blast+
  from step show ?case
  proof
    assume "db ?w1 c ! i = db w c ! i"
    then show ?thesis using len rest by simp
  next
    assume a: "Status (db w c ! i) = Active \<and> db ?w1 c ! i = (db w c ! i)\<lparr>Status := Completed\<rparr>"
    then have "Status (db ?w1 c ! i) = Completed" by simp
    then have "db (core_run ar xs ?w1) c ! i = db ?w1 c ! i" using rest by auto
    then show ?thesis using len a by simp
  qed
qed

lemma core_run_part_001_moves:
  assumes "\<not> held w (mutex ar)"
  shows "\<exists>w'. core_run_part_001 ar xs w = Some w' \<and> held w' = held w
         \<and> (i < length (db w c) \<longrightarrow>
              i < length (db w' c)
              \<and> (db w' c ! i = db w c ! i
                  \<or> Status (db w c ! i) = Active
                    \<and> db w' c ! i = (db w c ! i)\<lparr>Status := Completed\<rparr>))"
  using assms
proof (induction xs arbitrary: w)
  case Nil
  then show ?case by simp
next
  case (Cons x xs)
  obtain w1 where s1: "core_step_part_001 ar x w = Some w1" and h1: "held w1 = held w"
    and step: "i < length (db w c) \<longrightarrow> i < length (db w1 c)
       \<and> (db w1 c ! i = db w c ! i
         \<or> Status (db w c ! i) = Active \<and> db w1 c ! i = (db w c ! i)\<lparr>Status := Completed\<rparr>)"
    using core_step_part_001_moves [OF Cons.prems, of x i c] by blast
  have free1: "\<not> held w1 (mutex ar)" using h1 Cons.prems by simp
  obtain w' where r: "core_run_part_001 ar xs w1 = Some w'" and h': "held w' = held w1"
    and rest: "i < length (db w1 c) \<longrightarrow> i < length (db w' c)
       \<and> (db w' c ! i = db w1 c ! i
         \<or> Status (db w1 c ! i) = Active \<and> db w' c ! i = (db w1 c ! i)\<lparr>Status := Completed\<rparr>)"
    using Cons.IH [OF free1] by blast
  have run: "core_run_part_001 ar (x # xs) w = Some w'" using s1 r by simp
  have "i < length (db w' c)
       \<and> (db w' c ! i = db w c ! i
         \<or> Status (db w c ! i) = Active \<and> db w' c ! i = (db w c ! i)\<lparr>Status := Completed\<rparr>)"
    if lt: "i < length (db w c)"
  proof -
    from step lt have len1: "i < length (db w1 c)"
      and st: "db w1 c ! i = db w c ! i
         \<or> Status (db w c ! i) = Active \<and> db w1 c ! i = (db w c ! i)\<lparr>Status := Completed\<rparr>"
      by blast+
    from rest len1 have len: "i < length (db w' c)"
      and rs: "db w' c ! i = db w1 c ! i
         \<or> Status (db w1 c ! i) = Active \<and> db w' c ! i = (db w1 c ! i)\<lparr>Status := Completed\<rparr>"
      by blast+
    from st show ?thesis
    proof
      assume "db w1 c ! i = db w c ! i"
      then show ?thesis using len rs by simp
    next
      assume a: "Status (db w c ! i) = Active \<and> db w1 c ! i = (db w c ! i)\<lparr>Status := Completed\<rparr>"
      then have "Status (db w1 c ! i) = Completed" by simp
      then have "db w' c ! i = db w1 c ! i" using rs by auto
      then show ?thesis using len a by simp
    qed
  qed
  then show ?case using run h' h1 by auto
qed

text \<open>
  Claim C3. Under the operations of the core (\<open>CreateAuction\<close> and sweeps, in any order,
  whatever the store answers) a stored document keeps its place, and the only change it
  ever undergoes is the one from Active to Completed: in a single step it changes only
  inside a sweep that the store accepted, on the repository's collection, when it was
  Active and its timestamp satisfies the threshold comparison of the variant; over any
  run it is the document it was, or that document with Active replaced by Completed. A
  Completed document is therefore the same after every run. For \<open>part_001\<close> the run
  returns whenever the mutex is free at its start.
\<close>

theorem status_moves_one_way:
  fixes ar :: AuctionRepository and ar' :: AuctionRepository_part_001
  assumes "i < length (db w c)" and "\<not> held w (mutex ar')"
  shows "i < length (db (core_step ar x w) c)
       \<and> (db (core_step ar x w) c ! i = db w c ! i
           \<or> (\<exists>now. x = Sweep_op (now, None) \<and> c = Collection ar
                \<and> Status (db w c ! i) = Active
                \<and> sint (Timestamp (db w c ! i)) \<le> expirationThreshold ar now
                \<and> db (core_step ar x w) c ! i = (db w c ! i)\<lparr>Status := Completed\<rparr>))
       \<and> i < length (db (core_run ar xs w) c)
       \<and> (db (core_run ar xs w) c ! i = db w c ! i
           \<or> Status (db w c ! i) = Active
             \<and> db (core_run ar xs w) c ! i = (db w c ! i)\<lparr>Status := Completed\<rparr>)
       \<and> (Status (db w c ! i) = Completed \<longrightarrow> db (core_run ar xs w) c ! i = db w c ! i)
       \<and> (\<exists>w'. core_step_part_001 ar' x' w = Some w'
            \<and> i < length (db w' c)
            \<and> (db w' c ! i = db w c ! i
                \<or> (\<exists>now now_logged. x' = Sweep_op (now, now_logged, None) \<and> c = Collection ar'
                     \<and> Status (db w c ! i) = Active
                     \<and> sint (Timestamp (db w c ! i)) < expirationThreshold ar' now
                     \<and> db w' c ! i = (db w c ! i)\<lparr>Status := Completed\<rparr>)))
       \<and> (\<exists>w'. core_run_part_001 ar' xs' w = Some w'
            \<and> i < length (db w' c)
            \<and> (db w' c ! i = db w c ! i
                \<or> Status (db w c ! i) = Active
                  \<and> db w' c ! i = (db w c ! i)\<lparr>Status := Completed\<rparr>)
            \<and> (Status (db w c ! i) = Completed \<longrightarrow> db w' c ! i = db w c ! i))"
proof -
  note one = core_step_moves [OF assms(1), of ar x]
  note many = core_run_moves [OF assms(1), of ar xs]
  have stay: "Status (db w c ! i) = Completed \<longrightarrow> db (core_run ar xs w) c ! i = db w c ! i"
    using many by auto
  obtain w1 where one': "core_step_part_001 ar' x' w = Some w1
            \<and> i < length (db w1 c)
            \<and> (db w1 c ! i = db w c ! i
                \<or> (\<exists>now now_logged. x' = Sweep_op (now, now_logged, None) \<and> c = Collection ar'
                     \<and> Status (db w c ! i) = Active
                     \<and> sint (Timestamp (db w c ! i)) < expirationThreshold ar' now
                     \<and> db w1 c ! i = (db w c ! i)\<lparr>Status := Completed\<rparr>))"
    using core_step_part_001_moves [OF assms(2), of x' i c] assms(1) by blast
  obtain w2 where many': "core_run_part_001 ar' xs' w = Some w2"
      "i < length (db w2 c)"
      "db w2 c ! i = db w c ! i
                \<or> Status (db w c ! i) = Active
                  \<and> db w2 c ! i = (db w c ! i)\<lparr>Status := Completed\<rparr>"
    using core_run_part_001_moves [OF assms(2), of xs' i c] assms(1) by blast
  have stay': "Status (db w c ! i) = Completed \<longrightarrow> db w2 c ! i = db w c ! i"
    using many'(3) by auto
  show ?thesis
    using one many stay one' many' stay' by blast
qed


text \<open>The Completed auction of the sample world, through sweeps and a creation under its identifier.\<close>

theorem status_moves_one_way_witness:
  "(0::nat) < length (db sample_closed_world ''auctions'')
   \<and> \<not> held sample_closed_world (mutex sample_repo_part_001)
   \<and> Status (db sample_closed_world ''auctions'' ! 0) = Completed
   \<and> db (core_run sample_repo sample_ops sample_closed_world) ''auctions'' ! 0
       = db sample_closed_world ''auctions'' ! 0
   \<and> (\<exists>w'. core_run_part_001 sample_repo_part_001 sample_ops_part_001 sample_closed_world = Some w'
         \<and> db w' ''auctions'' ! 0 = db sample_closed_world ''auctions'' ! 0)"
proof -
  have len: "(0::nat) < length (db sample_closed_world ''auctions'')"
    by (simp add: sample_closed_world_def)
  have free: "\<not> held sample_closed_world (mutex sample_repo_part_001)"
    by (simp add: sample_closed_world_def)
  have closed: "Status (db sample_closed_world ''auctions'' ! 0) = Completed"
    by (simp add: sample_closed_world_def sample_doc_def)
  show ?thesis
    using len free closed
      status_moves_one_way [OF len free, where ar = sample_repo and xs = sample_ops
        and xs' = sample_ops_part_001]
    by blast
qed

lemma sample_run_values:
  "map Status (db (core_run sample_repo sample_ops sample_closed_world) ''auctions'') = [Completed, Completed]"
  "map_option (\<lambda>w. map Status (db w ''auctions'')) (core_run_part_001 sample_repo_part_001 sample_ops_part_001 sample_closed_world) = Some [Completed, Completed]"
  by (simp_all add: sample_ops_def sample_ops_part_001_def sample_closed_world_def sample_auction_def sample_doc_def
     sample_now_def sample_repo_simps closeExpiredAuctions_world closeExpiredAuctions_part_001_world
     CreateAuction_def Collection_InsertOne_def store_insertOne_def store_updateMany_ok logger_Error_def
     matches_def expirationThreshold_def Add_def Unix_def Let_def)

section \<open>C4: sweeping again\<close>

lemma store_updateMany_again:
  assumes "filter_status f = Active"
  shows "snd (store_updateMany fault f (Set_status Completed)
            (snd (store_updateMany None f (Set_status Completed) c)))
         = snd (store_updateMany None f (Set_status Completed) c)"
proof (cases fault)
  case None
  then show ?thesis by (simp add: store_updateMany_twice [OF assms])
next
  case (Some err)
  then show ?thesis by (simp add: store_updateMany_fault)
qed

lemma updated_db_again:
  fixes dbw :: "string \<Rightarrow> AuctionEntityMongo list"
  assumes "filter_status f = Active"
    and "dbw1 = dbw(coll := snd (store_updateMany None f (Set_status Completed) (dbw coll)))"
    and "dbw2 = dbw1(coll := snd (store_updateMany fault f (Set_status Completed) (dbw1 coll)))"
  shows "dbw2 = dbw1"
    and "fst (store_updateMany None f (Set_status Completed) (dbw1 coll)) = Inr \<lparr>ModifiedCount = 0\<rparr>"
proof -
  have c1: "dbw1 coll = snd (store_updateMany None f (Set_status Completed) (dbw coll))"
    using assms(2) by simp
  show "dbw2 = dbw1"
    unfolding assms(3) c1 store_updateMany_again [OF assms(1)] using c1 by (metis fun_upd_triv)
  show "fst (store_updateMany None f (Set_status Completed) (dbw1 coll)) = Inr \<lparr>ModifiedCount = 0\<rparr>"
    unfolding c1 store_updateMany_twice [OF assms(1)] by simp
qed

lemma completed_not_matched:
  assumes "filter_status f = Active" and "Status d = Completed"
  shows "\<not> matches f d"
  using assms by (simp add: matches_def)

text \<open>
  Claim C4. Sweeping twice at the same clock reading and with the same interval leaves
  the database as sweeping once does: after a sweep the store accepted, a second sweep
  changes nothing whatever the store answers, and two sweeps the store answers alike
  leave what one leaves. The second accepted sweep reports a modified count of 0. No
  sweep, at any clock reading and with any answer of the store, changes a document that
  is already Completed. For \<open>part_001\<close> both sweeps return when the mutex is free at the
  start.
\<close>

theorem sweep_idempotent:
  fixes ar :: AuctionRepository and ar' :: AuctionRepository_part_001
  assumes "\<not> held w (mutex ar')"
  shows "db (closeExpiredAuctions ar now fault (closeExpiredAuctions ar now None w))
           = db (closeExpiredAuctions ar now None w)
       \<and> db (closeExpiredAuctions ar now fault (closeExpiredAuctions ar now fault w))
           = db (closeExpiredAuctions ar now fault w)
       \<and> calls (closeExpiredAuctions ar now None (closeExpiredAuctions ar now None w))
           = calls (closeExpiredAuctions ar now None w)
             @ [UpdateMany_call (Collection ar)
                  \<lparr>filter_status = Active, filter_timestamp = Lte (expirationThreshold ar now)\<rparr>
                  (Set_status Completed) (Inr \<lparr>ModifiedCount = 0\<rparr>)]
       \<and> (i < length (db w c) \<and> Status (db w c ! i) = Completed \<longrightarrow>
            db (closeExpiredAuctions ar now fault w) c ! i = db w c ! i)
       \<and> (\<exists>w1 w2. closeExpiredAuctions_part_001 ar' now now_logged None w = Some w1
            \<and> closeExpiredAuctions_part_001 ar' now now_logged' fault w1 = Some w2
            \<and> db w2 = db w1)
       \<and> (\<exists>w1 w2. closeExpiredAuctions_part_001 ar' now now_logged fault w = Some w1
            \<and> closeExpiredAuctions_part_001 ar' now now_logged' fault w1 = Some w2
            \<and> db w2 = db w1)
       \<and> (\<exists>w1 w2. closeExpiredAuctions_part_001 ar' now now_logged None w = Some w1
            \<and> closeExpiredAuctions_part_001 ar' now now_logged' None w1 = Some w2
            \<and> calls w2 = calls w1
                 @ [UpdateMany_call (Collection ar')
                      \<lparr>filter_status = Active, filter_timestamp = Lt (expirationThreshold ar' now)\<rparr>
                      (Set_status Completed) (Inr \<lparr>ModifiedCount = 0\<rparr>)])
       \<and> (\<exists>w'. closeExpiredAuctions_part_001 ar' now now_logged fault w = Some w'
            \<and> (i < length (db w c) \<and> Status (db w c ! i) = Completed \<longrightarrow> db w' c ! i = db w c ! i))"
proof -
  let ?f = "\<lparr>filter_status = Active, filter_timestamp = Lte (expirationThreshold ar now)\<rparr>"
  let ?f' = "\<lparr>filter_status = Active, filter_timestamp = Lt (expirationThreshold ar' now)\<rparr>"
  let ?w1 = "closeExpiredAuctions ar now None w"
  have fa: "filter_status ?f = Active" and fa': "filter_status ?f' = Active" by simp_all
  note again = updated_db_again [OF fa db_closeExpiredAuctions [of ar now None w]
      db_closeExpiredAuctions [of ar now _ ?w1]]
  have a: "db (closeExpiredAuctions ar now fault ?w1) = db ?w1"
    by (rule again(1))
  have a0: "db (closeExpiredAuctions ar now fault (closeExpiredAuctions ar now fault w))
           = db (closeExpiredAuctions ar now fault w)"
  proof (cases fault)
    case None
    then show ?thesis using a by simp
  next
    case (Some err)
    then show ?thesis by (simp add: db_closeExpiredAuctions store_updateMany_fault)
  qed
  have b: "calls (closeExpiredAuctions ar now None ?w1)
           = calls ?w1 @ [UpdateMany_call (Collection ar) ?f (Set_status Completed) (Inr \<lparr>ModifiedCount = 0\<rparr>)]"
    unfolding calls_closeExpiredAuctions [of ar now None ?w1] again(2) ..
  have c: "i < length (db w c) \<and> Status (db w c ! i) = Completed \<longrightarrow>
            db (closeExpiredAuctions ar now fault w) c ! i = db w c ! i"
    using updated_db_frame(3) [OF db_closeExpiredAuctions [of ar now fault w], of i c]
      completed_not_matched [OF fa] by blast
  obtain w1 where r1: "closeExpiredAuctions_part_001 ar' now now_logged None w = Some w1"
    and h1: "held w1 = held w"
    and d1: "db w1 = (db w)(Collection ar' := snd (store_updateMany None ?f' (Set_status Completed) (db w (Collection ar'))))"
    using closeExpiredAuctions_part_001_returns [OF assms, of now now_logged None] by blast
  have free1: "\<not> held w1 (mutex ar')" using h1 assms by simp
  obtain w2 where r2: "closeExpiredAuctions_part_001 ar' now now_logged' fault w1 = Some w2"
    and d2: "db w2 = (db w1)(Collection ar' := snd (store_updateMany fault ?f' (Set_status Completed) (db w1 (Collection ar'))))"
    using closeExpiredAuctions_part_001_returns [OF free1, of now now_logged' fault] by blast
  have a': "db w2 = db w1"
    by (rule updated_db_again(1) [OF fa' d1 d2])
  have a0': "\<exists>w1 w2. closeExpiredAuctions_part_001 ar' now now_logged fault w = Some w1
            \<and> closeExpiredAuctions_part_001 ar' now now_logged' fault w1 = Some w2
            \<and> db w2 = db w1"
  proof (cases fault)
    case None
    then show ?thesis using r1 r2 a' by blast
  next
    case (Some err)
    obtain v1 where s1: "closeExpiredAuctions_part_001 ar' now now_logged fault w = Some v1"
      and g1: "held v1 = held w"
      using closeExpiredAuctions_part_001_returns [OF assms, of now now_logged fault] by blast
    have "\<not> held v1 (mutex ar')" using g1 assms by simp
    then obtain v2 where s2: "closeExpiredAuctions_part_001 ar' now now_logged' fault v1 = Some v2"
      and e2: "db v2 = (db v1)(Collection ar' := snd (store_updateMany fault ?f' (Set_status Completed) (db v1 (Collection ar'))))"
      using closeExpiredAuctions_part_001_returns [of v1 ar' now now_logged' fault] by blast
    have "db v2 = db v1" using e2 Some by (simp add: store_updateMany_fault)
    then show ?thesis using s1 s2 by blast
  qed
  obtain w3 where r3: "closeExpiredAuctions_part_001 ar' now now_logged' None w1 = Some w3"
    and c3: "calls w3 = calls w1 @ [UpdateMany_call (Collection ar') ?f' (Set_status Completed)
                (fst (store_updateMany None ?f' (Set_status Completed) (db w1 (Collection ar'))))]"
    using closeExpiredAuctions_part_001_returns [OF free1, of now now_logged' None] by blast
  have b': "calls w3 = calls w1
                 @ [UpdateMany_call (Collection ar') ?f' (Set_status Completed) (Inr \<lparr>ModifiedCount = 0\<rparr>)]"
    unfolding c3 updated_db_again(2) [OF fa' d1 refl] ..
  obtain w4 where r4: "closeExpiredAuctions_part_001 ar' now now_logged fault w = Some w4"
    and d4: "db w4 = (db w)(Collection ar' := snd (store_updateMany fault ?f' (Set_status Completed) (db w (Collection ar'))))"
    using closeExpiredAuctions_part_001_returns [OF assms, of now now_logged fault] by blast
  have c': "i < length (db w c) \<and> Status (db w c ! i) = Completed \<longrightarrow> db w4 c ! i = db w c ! i"
    using updated_db_frame(3) [OF d4, of i c] completed_not_matched [OF fa'] by blast
  show ?thesis
    using a a0 b c r1 r2 a' a0' r3 b' r4 c' by blast
qed


text \<open>Two sweeps of the sample world that holds a Completed auction.\<close>

theorem sweep_idempotent_witness:
  "\<not> held sample_closed_world (mutex sample_repo_part_001)
   \<and> (0::nat) < length (db sample_closed_world ''auctions'')
   \<and> Status (db sample_closed_world ''auctions'' ! 0) = Completed
   \<and> db (closeExpiredAuctions sample_repo sample_now None
          (closeExpiredAuctions sample_repo sample_now None sample_closed_world))
       = db (closeExpiredAuctions sample_repo sample_now None sample_closed_world)
   \<and> db (closeExpiredAuctions sample_repo sample_now None sample_closed_world) ''auctions'' ! 0
       = db sample_closed_world ''auctions'' ! 0
   \<and> (\<exists>w1 w2. closeExpiredAuctions_part_001 sample_repo_part_001 sample_now sample_now None sample_closed_world = Some w1
         \<and> closeExpiredAuctions_part_001 sample_repo_part_001 sample_now sample_now None w1 = Some w2
         \<and> db w2 = db w1)"
proof -
  have free: "\<not> held sample_closed_world (mutex sample_repo_part_001)"
    by (simp add: sample_closed_world_def)
  have len: "(0::nat) < length (db sample_closed_world ''auctions'')"
    by (simp add: sample_closed_world_def)
  have closed: "Status (db sample_closed_world ''auctions'' ! 0) = Completed"
    by (simp add: sample_closed_world_def sample_doc_def)
  note idem = sweep_idempotent [OF free, where ar = sample_repo and now = sample_now and fault = None
      and i = 0 and c = "''auctions''" and now_logged = sample_now and now_logged' = sample_now]
  have a: "db (closeExpiredAuctions sample_repo sample_now None
          (closeExpiredAuctions sample_repo sample_now None sample_closed_world))
       = db (closeExpiredAuctions sample_repo sample_now None sample_closed_world)"
    using idem by blast
  have b: "db (closeExpiredAuctions sample_repo sample_now None sample_closed_world) ''auctions'' ! 0
       = db sample_closed_world ''auctions'' ! 0"
    using idem len closed by blast
  have c: "\<exists>w1 w2. closeExpiredAuctions_part_001 sample_repo_part_001 sample_now sample_now None sample_closed_world = Some w1
         \<and> closeExpiredAuctions_part_001 sample_repo_part_001 sample_now sample_now None w1 = Some w2
         \<and> db w2 = db w1"
    using idem by blast
  show ?thesis using free len closed a b c by blast
qed

section \<open>C5: a sweep the store refuses\<close>

lemma closeExpiredAuctions_refused:
  "closeExpiredAuctions ar now (Some err) w =
     w\<lparr>calls := calls w @ [UpdateMany_call (Collection ar)
                 \<lparr>filter_status = Active, filter_timestamp = Lte (expirationThreshold ar now)\<rparr>
                 (Set_status Completed) (Inl err)],
       logged := logged w @ [Error ''Error trying to close expired auctions'' err]\<rparr>"
  by (simp add: closeExpiredAuctions_world store_updateMany_fault Let_def)

lemma closeExpiredAuctions_part_001_refused:
  assumes "\<not> held w (mutex ar)"
  shows "closeExpiredAuctions_part_001 ar now now_logged (Some err) w =
     Some (w\<lparr>calls := calls w @ [UpdateMany_call (Collection ar)
                 \<lparr>filter_status = Active, filter_timestamp = Lt (expirationThreshold ar now)\<rparr>
                 (Set_status Completed) (Inl err)],
       logged := logged w @
         [Info ''Checking for expired auctions''
            [Int64 ''threshold'' (expirationThreshold ar now), Int64 ''now'' (Unix now_logged)],
          Error ''Error trying to close expired auctions'' err]\<rparr>)"
  using assms by (simp add: closeExpiredAuctions_part_001_world store_updateMany_fault Let_def)

lemma db_closeExpiredAuctions_cong:
  assumes "db w1 = db w"
  shows "db (closeExpiredAuctions ar now fault w1) = db (closeExpiredAuctions ar now fault w)"
  using assms by (simp add: db_closeExpiredAuctions)

text \<open>
  Claim C5. When the store answers the batch update with an error, the sweep records
  its one call, logs the error and returns a world (it has no error result of its own)
  in which every collection is as it was. The loop that took the tick goes on waiting in
  \<open>select\<close>; the next tick runs the next sweep, and what that sweep leaves in the
  database is what it would have left had the refused sweep never run. For \<open>part_001\<close>
  the same holds, the mutex is released on the error path, and the sweeps return when
  the mutex is free at the start.
\<close>

theorem sweep_error_is_swallowed:
  fixes ar :: AuctionRepository and ar' :: AuctionRepository_part_001
  assumes "\<not> held w (mutex ar')"
  shows "closeExpiredAuctions ar now (Some err) w =
           w\<lparr>calls := calls w @ [UpdateMany_call (Collection ar)
                 \<lparr>filter_status = Active, filter_timestamp = Lte (expirationThreshold ar now)\<rparr>
                 (Set_status Completed) (Inl err)],
             logged := logged w @ [Error ''Error trying to close expired auctions'' err]\<rparr>
       \<and> db (closeExpiredAuctions ar now (Some err) w) = db w
       \<and> startAuctionCloser ar [TickerC (now, Some err)] w
           = (Waiting, closeExpiredAuctions ar now (Some err) w)
       \<and> startAuctionCloser ar (TickerC (now, Some err) # TickerC (now_next, fault_next) # rest) w
           = startAuctionCloser ar rest
               (closeExpiredAuctions ar now_next fault_next (closeExpiredAuctions ar now (Some err) w))
       \<and> db (closeExpiredAuctions ar now_next fault_next (closeExpiredAuctions ar now (Some err) w))
           = db (closeExpiredAuctions ar now_next fault_next w)
       \<and> (\<exists>w1. closeExpiredAuctions_part_001 ar' now now_logged (Some err) w = Some w1
            \<and> w1 = w\<lparr>calls := calls w @ [UpdateMany_call (Collection ar')
                     \<lparr>filter_status = Active, filter_timestamp = Lt (expirationThreshold ar' now)\<rparr>
                     (Set_status Completed) (Inl err)],
                   logged := logged w @
                     [Info ''Checking for expired auctions''
                        [Int64 ''threshold'' (expirationThreshold ar' now), Int64 ''now'' (Unix now_logged)],
                      Error ''Error trying to close expired auctions'' err]\<rparr>
            \<and> db w1 = db w \<and> held w1 = held w
            \<and> startAuctionCloser_part_001 ar' [TickerC (now, now_logged, Some err)] w = Some (Waiting, w1)
            \<and> startAuctionCloser_part_001 ar' (TickerC (now, now_logged, Some err) # TickerC (now_next, now_logged_next, fault_next) # rest') w
                = (case closeExpiredAuctions_part_001 ar' now_next now_logged_next fault_next w1 of
                     None \<Rightarrow> None | Some w2 \<Rightarrow> startAuctionCloser_part_001 ar' rest' w2)
            \<and> (\<exists>w2 v. closeExpiredAuctions_part_001 ar' now_next now_logged_next fault_next w1 = Some w2
                 \<and> closeExpiredAuctions_part_001 ar' now_next now_logged_next fault_next w = Some v
                 \<and> db w2 = db v))"
proof -
  note a = closeExpiredAuctions_refused [of ar now err w]
  have b: "db (closeExpiredAuctions ar now (Some err) w) = db w"
    unfolding a by simp
  have c: "startAuctionCloser ar [TickerC (now, Some err)] w
           = (Waiting, closeExpiredAuctions ar now (Some err) w)"
    by simp
  have d: "startAuctionCloser ar (TickerC (now, Some err) # TickerC (now_next, fault_next) # rest) w
           = startAuctionCloser ar rest
               (closeExpiredAuctions ar now_next fault_next (closeExpiredAuctions ar now (Some err) w))"
    by simp
  have e: "db (closeExpiredAuctions ar now_next fault_next (closeExpiredAuctions ar now (Some err) w))
           = db (closeExpiredAuctions ar now_next fault_next w)"
    by (rule db_closeExpiredAuctions_cong [OF b])
  let ?w1 = "w\<lparr>calls := calls w @ [UpdateMany_call (Collection ar')
                     \<lparr>filter_status = Active, filter_timestamp = Lt (expirationThreshold ar' now)\<rparr>
                     (Set_status Completed) (Inl err)],
                   logged := logged w @
                     [Info ''Checking for expired auctions''
                        [Int64 ''threshold'' (expirationThreshold ar' now), Int64 ''now'' (Unix now_logged)],
                      Error ''Error trying to close expired auctions'' err]\<rparr>"
  note a' = closeExpiredAuctions_part_001_refused [OF assms, of now now_logged err]
  have b': "db ?w1 = db w" and h': "held ?w1 = held w" by simp_all
  have c': "startAuctionCloser_part_001 ar' [TickerC (now, now_logged, Some err)] w = Some (Waiting, ?w1)"
    by (simp add: a')
  have d': "startAuctionCloser_part_001 ar' (TickerC (now, now_logged, Some err) # TickerC (now_next, now_logged_next, fault_next) # rest') w
                = (case closeExpiredAuctions_part_001 ar' now_next now_logged_next fault_next ?w1 of
                     None \<Rightarrow> None | Some w2 \<Rightarrow> startAuctionCloser_part_001 ar' rest' w2)"
    by (simp add: a')
  have free1: "\<not> held ?w1 (mutex ar')" using assms by simp
  obtain w2 where r2: "closeExpiredAuctions_part_001 ar' now_next now_logged_next fault_next ?w1 = Some w2"
    and d2: "db w2 = (db ?w1)(Collection ar' := snd (store_updateMany fault_next
               \<lparr>filter_status = Active, filter_timestamp = Lt (expirationThreshold ar' now_next)\<rparr>
               (Set_status Completed) (db ?w1 (Collection ar'))))"
    using closeExpiredAuctions_part_001_returns [OF free1, of now_next now_logged_next fault_next] by blast
  obtain v where rv: "closeExpiredAuctions_part_001 ar' now_next now_logged_next fault_next w = Some v"
    and dv: "db v = (db w)(Collection ar' := snd (store_updateMany fault_next
               \<lparr>filter_status = Active, filter_timestamp = Lt (expirationThreshold ar' now_next)\<rparr>
               (Set_status Completed) (db w (Collection ar'))))"
    using closeExpiredAuctions_part_001_returns [OF assms, of now_next now_logged_next fault_next] by blast
  have e': "db w2 = db v" unfolding d2 dv by simp
  have part: "\<exists>w1. closeExpiredAuctions_part_001 ar' now now_logged (Some err) w = Some w1
            \<and> w1 = ?w1
            \<and> db w1 = db w \<and> held w1 = held w
            \<and> startAuctionCloser_part_001 ar' [TickerC (now, now_logged, Some err)] w = Some (Waiting, w1)
            \<and> startAuctionCloser_part_001 ar' (TickerC (now, now_logged, Some err) # TickerC (now_next, now_logged_next, fault_next) # rest') w
                = (case closeExpiredAuctions_part_001 ar' now_next now_logged_next fault_next w1 of
                     None \<Rightarrow> None | Some w2 \<Rightarrow> startAuctionCloser_part_001 ar' rest' w2)
            \<and> (\<exists>w2 v. closeExpiredAuctions_part_001 ar' now_next now_logged_next fault_next w1 = Some w2
                 \<and> closeExpiredAuctions_part_001 ar' now_next now_logged_next fault_next w = Some v
                 \<and> db w2 = db v)"
    using a' b' h' c' d' r2 rv e' by blast
  show ?thesis
    using a b c d e part by blast
qed


text \<open>A refused sweep of the sample world, followed by an accepted one a second later.\<close>

theorem sweep_error_is_swallowed_witness:
  "\<not> held sample_world (mutex sample_repo_part_001)
   \<and> db (closeExpiredAuctions sample_repo sample_now (Some (DriverError ''connection reset'')) sample_world)
       = db sample_world
   \<and> fst (startAuctionCloser sample_repo [TickerC (sample_now, Some (DriverError ''connection reset''))]
            sample_world) = Waiting
   \<and> db (closeExpiredAuctions sample_repo (sample_now + 1000000000) None
            (closeExpiredAuctions sample_repo sample_now (Some (DriverError ''connection reset'')) sample_world))
       = db (closeExpiredAuctions sample_repo (sample_now + 1000000000) None sample_world)
   \<and> (\<exists>w1. closeExpiredAuctions_part_001 sample_repo_part_001 sample_now sample_now
                (Some (DriverError ''connection reset'')) sample_world = Some w1
         \<and> db w1 = db sample_world \<and> held w1 = held sample_world
         \<and> startAuctionCloser_part_001 sample_repo_part_001
              [TickerC (sample_now, sample_now, Some (DriverError ''connection reset''))] sample_world
             = Some (Waiting, w1))"
proof -
  have free: "\<not> held sample_world (mutex sample_repo_part_001)"
    by (simp add: sample_world_def)
  note sw = sweep_error_is_swallowed [OF free, where ar = sample_repo and now = sample_now
      and err = "DriverError ''connection reset''" and now_next = "sample_now + 1000000000"
      and fault_next = None and now_logged = sample_now]
  have a: "db (closeExpiredAuctions sample_repo sample_now (Some (DriverError ''connection reset'')) sample_world)
       = db sample_world"
    using sw by blast
  have "startAuctionCloser sample_repo [TickerC (sample_now, Some (DriverError ''connection reset''))] sample_world
      = (Waiting, closeExpiredAuctions sample_repo sample_now (Some (DriverError ''connection reset'')) sample_world)"
    using sw by blast
  then have b: "fst (startAuctionCloser sample_repo [TickerC (sample_now, Some (DriverError ''connection reset''))]
            sample_world) = Waiting"
    by simp
  have c: "db (closeExpiredAuctions sample_repo (sample_now + 1000000000) None
            (closeExpiredAuctions sample_repo sample_now (Some (DriverError ''connection reset'')) sample_world))
       = db (closeExpiredAuctions sample_repo (sample_now + 1000000000) None sample_world)"
    using sw by blast
  have d: "\<exists>w1. closeExpiredAuctions_part_001 sample_repo_part_001 sample_now sample_now
                (Some (DriverError ''connection reset'')) sample_world = Some w1
         \<and> db w1 = db sample_world \<and> held w1 = held sample_world
         \<and> startAuctionCloser_part_001 sample_repo_part_001
              [TickerC (sample_now, sample_now, Some (DriverError ''connection reset''))] sample_world
             = Some (Waiting, w1)"
    using sw by blast
  show ?thesis using free a b c d by blast
qed

section \<open>C6: the interval resolver\<close>

lemma sint_five_minutes: "sint (Minute * 5) = 300000000000"
  by (simp add: Minute_def Second_def)

text \<open>
  Claim C6. The resolver reads the one variable \<open>AUCTION_INTERVAL\<close>. Whenever the parser
  rejects what it read, and in particular when the variable is absent (the parser is
  then given the empty string) and the parser rejects the empty string, the result is
  five minutes, that is 300 seconds. For every parser and every environment the result
  is a duration, either these five minutes or the duration the parser gave: the resolver
  has no error result. Both constructors store that result as the interval.
\<close>

theorem getAuctionInterval_fails_soft:
  "(parse (os_Getenv env ''AUCTION_INTERVAL'') = Inl err \<longrightarrow>
      getAuctionInterval parse env = Minute * 5)
   \<and> (env ''AUCTION_INTERVAL'' = None \<and> parse [] = Inl err \<longrightarrow>
      getAuctionInterval parse env = Minute * 5)
   \<and> sint (Minute * 5) = 300 * sint Second
   \<and> (getAuctionInterval parse env = Minute * 5
        \<or> parse (os_Getenv env ''AUCTION_INTERVAL'') = Inr (getAuctionInterval parse env))
   \<and> auctionInterval (NewAuctionRepository parse env) = getAuctionInterval parse env
   \<and> auctionInterval (NewAuctionRepositoryWithCollection parse env collectionName m)
       = getAuctionInterval parse env"
proof -
  have a: "parse (os_Getenv env ''AUCTION_INTERVAL'') = Inl err \<longrightarrow>
      getAuctionInterval parse env = Minute * 5"
    by (simp add: getAuctionInterval_def)
  have b: "env ''AUCTION_INTERVAL'' = None \<and> parse [] = Inl err \<longrightarrow>
      getAuctionInterval parse env = Minute * 5"
    by (simp add: getAuctionInterval_def os_Getenv_def)
  have c: "sint (Minute * 5) = 300 * sint Second"
    by (simp add: Minute_def Second_def)
  have d: "getAuctionInterval parse env = Minute * 5
        \<or> parse (os_Getenv env ''AUCTION_INTERVAL'') = Inr (getAuctionInterval parse env)"
    by (cases "parse (os_Getenv env ''AUCTION_INTERVAL'')") (simp_all add: getAuctionInterval_def)
  have e: "auctionInterval (NewAuctionRepository parse env) = getAuctionInterval parse env"
    by (simp add: NewAuctionRepository_def)
  have f: "auctionInterval (NewAuctionRepositoryWithCollection parse env collectionName m)
       = getAuctionInterval parse env"
    by (simp add: NewAuctionRepositoryWithCollection_def)
  show ?thesis using a b c d e f by blast
qed

text \<open>A value that does not parse, and no value at all.\<close>

theorem getAuctionInterval_fails_soft_witness:
  "sample_parse (os_Getenv (sample_env ''two seconds'') ''AUCTION_INTERVAL'') = Inl (InvalidDuration ''two seconds'')
   \<and> getAuctionInterval sample_parse (sample_env ''two seconds'') = Minute * 5
   \<and> Map.empty ''AUCTION_INTERVAL'' = (None :: string option)
   \<and> sample_parse [] = Inl (InvalidDuration [])
   \<and> getAuctionInterval sample_parse Map.empty = Minute * 5"
proof -
  have h1: "sample_parse (os_Getenv (sample_env ''two seconds'') ''AUCTION_INTERVAL'') = Inl (InvalidDuration ''two seconds'')"
    by (simp add: sample_parse_def sample_env_def os_Getenv_def)
  have h2: "Map.empty ''AUCTION_INTERVAL'' = (None :: string option)" by simp
  have h3: "sample_parse [] = Inl (InvalidDuration [])"
    by (simp add: sample_parse_def)
  have a: "getAuctionInterval sample_parse (sample_env ''two seconds'') = Minute * 5"
    using h1 getAuctionInterval_fails_soft [of sample_parse "sample_env ''two seconds''" "InvalidDuration ''two seconds''"]
    by blast
  have b: "getAuctionInterval sample_parse Map.empty = Minute * 5"
    using h2 h3 getAuctionInterval_fails_soft [of sample_parse Map.empty "InvalidDuration []"]
    by blast
  show ?thesis using h1 h2 h3 a b by blast
qed

section \<open>C7: the tick period\<close>

lemma sdiv_2_nonneg:
  fixes k :: int
  assumes "0 \<le> k"
  shows "k sdiv 2 = k div 2"
  using assms by (simp add: signed_divide_int_def sgn_if)

lemma sdiv_2_neg:
  fixes k :: int
  assumes "k < 0"
  shows "k sdiv 2 = - ((- k) div 2)"
  using assms by (simp add: signed_divide_int_def sgn_if)

lemma sdiv_2_range:
  fixes k :: int
  assumes "- 9223372036854775808 \<le> k" and "k < 9223372036854775808"
  shows "- 9223372036854775808 \<le> k sdiv 2" and "k sdiv 2 < 9223372036854775808"
proof -
  show "- 9223372036854775808 \<le> k sdiv 2"
  proof (cases "0 \<le> k")
    case True
    then show ?thesis by (simp add: sdiv_2_nonneg)
  next
    case False
    then have "k sdiv 2 = - ((- k) div 2)" by (simp add: sdiv_2_neg)
    moreover have "(- k) div 2 \<le> - k" using False by simp
    ultimately show ?thesis using assms(1) by linarith
  qed
  show "k sdiv 2 < 9223372036854775808"
  proof (cases "0 \<le> k")
    case True
    then have "k sdiv 2 = k div 2" by (simp add: sdiv_2_nonneg)
    moreover have "k div 2 \<le> k" using True by simp
    ultimately show ?thesis using assms(2) by linarith
  next
    case False
    then have "k sdiv 2 = - ((- k) div 2)" by (simp add: sdiv_2_neg)
    moreover have "0 \<le> (- k) div 2" using False by simp
    ultimately show ?thesis by linarith
  qed
qed

lemma sint_half_Duration:
  fixes d :: Duration
  shows "sint (word_of_int (sint d sdiv 2) :: Duration) = sint d sdiv 2"
proof -
  have "- (2 ^ 63) \<le> sint d sdiv 2" and "sint d sdiv 2 < 2 ^ 63"
    using sdiv_2_range [OF sint_Duration_range [of d]] by simp_all
  then show ?thesis
    by (simp add: sint_sbintrunc' signed_take_bit_int_eq_self)
qed

lemma sint_checkInterval:
  "sint (checkInterval ar) = max (sint (auctionInterval ar) sdiv 2) (sint Second)"
  by (simp add: checkInterval_def Let_def word_sless_alt sint_half_Duration max_def)


text \<open>
  Claim C7. For every interval the tick period of the loop is
  \<open>max(interval / 2, 1 second)\<close>, with Go's integer division of the nanosecond count:
  half the interval (rounded down to a whole nanosecond) when the interval is at least
  two seconds, and one second otherwise, negative intervals included.
\<close>

theorem checkInterval_cadence:
  "sint (checkInterval ar) = max (sint (auctionInterval ar) sdiv 2) (sint Second)
   \<and> (2 * sint Second \<le> sint (auctionInterval ar) \<longrightarrow>
        sint (checkInterval ar) = sint (auctionInterval ar) div 2
        \<and> sint (auctionInterval ar) = 2 * sint (checkInterval ar) + sint (auctionInterval ar) mod 2)
   \<and> (sint (auctionInterval ar) < 2 * sint Second \<longrightarrow> checkInterval ar = Second)"
proof -
  let ?iv = "sint (auctionInterval ar)"
  have s: "sint Second = 1000000000" by (simp add: Second_def)
  have a: "sint (checkInterval ar) = max (?iv sdiv 2) (sint Second)"
    by (rule sint_checkInterval)
  have b: "sint (checkInterval ar) = ?iv div 2 \<and> ?iv = 2 * sint (checkInterval ar) + ?iv mod 2"
    if big: "2 * sint Second \<le> ?iv"
  proof -
    have nn: "0 \<le> ?iv" using big s by simp
    have "sint Second \<le> ?iv div 2" using big s by simp
    then have "sint (checkInterval ar) = ?iv div 2"
      using a nn by (simp add: sdiv_2_nonneg max_def)
    then show ?thesis by simp
  qed
  have c: "checkInterval ar = Second" if small: "?iv < 2 * sint Second"
  proof -
    have "?iv sdiv 2 \<le> sint Second"
    proof (cases "0 \<le> ?iv")
      case True
      then show ?thesis using small s by (simp add: sdiv_2_nonneg)
    next
      case False
      then have "?iv sdiv 2 = - ((- ?iv) div 2)" by (simp add: sdiv_2_neg)
      moreover have "0 \<le> (- ?iv) div 2" using False by simp
      ultimately show ?thesis using s by linarith
    qed
    then have eq: "sint (checkInterval ar) = sint Second" using a by (simp add: max_def)
    have "checkInterval ar = word_of_int (sint (checkInterval ar))" by simp
    also have "\<dots> = word_of_int (sint Second)" by (simp only: eq)
    also have "\<dots> = Second" by simp
    finally show ?thesis .
  qed
  show ?thesis using a b c by blast
qed

text \<open>An interval of twenty seconds, and one a nanosecond short of two seconds.\<close>

theorem checkInterval_cadence_witness:
  "2 * sint Second \<le> sint (auctionInterval (sample_repo\<lparr>auctionInterval := 20 * Second\<rparr>))
   \<and> sint (checkInterval (sample_repo\<lparr>auctionInterval := 20 * Second\<rparr>)) = 10000000000
   \<and> sint (auctionInterval (sample_repo\<lparr>auctionInterval := Second + 999999999\<rparr>)) < 2 * sint Second
   \<and> checkInterval (sample_repo\<lparr>auctionInterval := Second + 999999999\<rparr>) = Second"
proof -
  have h1: "2 * sint Second \<le> sint (auctionInterval (sample_repo\<lparr>auctionInterval := 20 * Second\<rparr>))"
    by (simp add: Second_def)
  have h2: "sint (auctionInterval (sample_repo\<lparr>auctionInterval := Second + 999999999\<rparr>)) < 2 * sint Second"
    by (simp add: Second_def)
  have v: "sint (auctionInterval (sample_repo\<lparr>auctionInterval := 20 * Second\<rparr>)) div 2 = 10000000000"
    by (simp add: Second_def)
  have a: "sint (checkInterval (sample_repo\<lparr>auctionInterval := 20 * Second\<rparr>)) = 10000000000"
    using h1 v checkInterval_cadence [of "sample_repo\<lparr>auctionInterval := 20 * Second\<rparr>"] by simp
  have b: "checkInterval (sample_repo\<lparr>auctionInterval := Second + 999999999\<rparr>) = Second"
    using h2 checkInterval_cadence [of "sample_repo\<lparr>auctionInterval := Second + 999999999\<rparr>"] by blast
  show ?thesis using h1 h2 a b by blast
qed

section \<open>C10: intervals that are zero or negative\<close>










section \<open>The loop and the guard\<close>

text \<open>
  What the sequential model says of the loop and of the mutex. Once \<open>select\<close> takes the
  \<open>ctx.Done()\<close> case the loop has returned, whatever cases might have followed; a tick
  taken before it runs its whole sweep first. The sweep of \<open>part_001\<close> does not return
  while its mutex is held by another, and leaves the mutex free on both ways out.
\<close>

lemma startAuctionCloser_append:
  "startAuctionCloser ar (ticks @ rest) w =
     (if fst (startAuctionCloser ar ticks w) = Returned then startAuctionCloser ar ticks w
      else startAuctionCloser ar rest (snd (startAuctionCloser ar ticks w)))"
proof (induction ar ticks w rule: startAuctionCloser.induct)
  case (1 ar w)
  then show ?case by simp
next
  case (2 ar rest' w)
  then show ?case by simp
next
  case (3 ar now fault rest' w)
  then show ?case by simp
qed

lemma startAuctionCloser_Returned_iff:
  "fst (startAuctionCloser ar evs w) = Returned \<longleftrightarrow> CtxDone \<in> set evs"
proof (induction ar evs w rule: startAuctionCloser.induct)
  case (1 ar w)
  then show ?case by simp
next
  case (2 ar rest w)
  then show ?case by simp
next
  case (3 ar now fault rest w)
  then show ?case by simp
qed

lemma startAuctionCloser_after_Done:
  "startAuctionCloser ar (ticks @ CtxDone # rest) w = startAuctionCloser ar (ticks @ [CtxDone]) w"
  by (simp add: startAuctionCloser_append [of ar ticks] split: if_splits)

lemma startAuctionCloser_tick_then_Done:
  "startAuctionCloser ar (TickerC (now, fault) # CtxDone # rest) w
     = (Returned, closeExpiredAuctions ar now fault w)"
  by simp

lemma closeExpiredAuctions_part_001_blocked:
  "held w (mutex ar) \<Longrightarrow> closeExpiredAuctions_part_001 ar now now_logged fault w = None"
  by (simp add: closeExpiredAuctions_part_001_world)

lemma closeExpiredAuctions_part_001_releases:
  "closeExpiredAuctions_part_001 ar now now_logged fault w = Some w' \<Longrightarrow> \<not> held w' (mutex ar)"
  by (auto simp add: closeExpiredAuctions_part_001_world Let_def split: if_splits)

end
